theory Spec2Isabelle
  imports Complex_Main "HOL-Library.AList"
begin

section \<open>Data model of the peer runtime (src/p2psimpy/peer.py)\<close>

text \<open>
  Peers are Python objects compared and hashed by identity, so a peer is named by
  its object identity and the objects live in an explicit store. Python's
  insertion-ordered \<open>dict\<close> is an association list: assignment to a present key
  replaces the value in place, assignment to an absent key appends
  (\<open>AList.update\<close>), \<open>del\<close> removes the entry (\<open>AList.delete\<close>).
\<close>

type_synonym peer_id = nat
type_synonym cb_id = nat
type_synonym storage_id = nat
type_synonym ('k, 'v) dict = "('k \<times> 'v) list"

definition dict_contains :: "('k, 'v) dict \<Rightarrow> 'k \<Rightarrow> bool" where
  "dict_contains d k = (k \<in> set (map fst d))"

definition dict_get :: "('k, 'v) dict \<Rightarrow> 'k \<Rightarrow> 'v option" where
  "dict_get d k = map_of d k"

definition dict_set :: "('k, 'v) dict \<Rightarrow> 'k \<Rightarrow> 'v \<Rightarrow> ('k, 'v) dict" where
  "dict_set d k v = AList.update k v d"

definition dict_del :: "('k, 'v) dict \<Rightarrow> 'k \<Rightarrow> ('k, 'v) dict" where
  "dict_del d k = AList.delete k d"

definition dict_keys :: "('k, 'v) dict \<Rightarrow> 'k list" where
  "dict_keys d = map fst d"

definition dict_values :: "('k, 'v) dict \<Rightarrow> 'v list" where
  "dict_values d = map snd d"

text \<open>The number of entries a dictionary holds under one key.\<close>

definition entries_for :: "('k, 'v) dict \<Rightarrow> 'k \<Rightarrow> nat" where
  "entries_for d k = length (filter (\<lambda>e. fst e = k) d)"

datatype error =
    AssertionError
  | NoHandler string
  | NotConnected
  | NoStorage string
  | KeyError
  | AttributeError
  | ValueError
  | IndexError
  | ZeroDivisionError

text \<open>
  Modelled from the spec: the class \<open>Connection\<close> (p2psimpy.network) is not under
  src/. The spec gives its contract only: it associates exactly two peers and a
  bandwidth value, and \<open>send(message, isInitial)\<close> hands the message over for a
  delivery that is modelled externally. The two peers are the fields below; the
  bandwidth attribute is read through a parameter where the code reads it.
\<close>

record connection =
  cnx_sender :: peer_id
  cnx_receiver :: peer_id

definition Connection :: "peer_id \<Rightarrow> peer_id \<Rightarrow> connection" where
  "Connection self other = \<lparr>cnx_sender = self, cnx_receiver = other\<rparr>"

text \<open>
  A message carries its sender, its concrete type (the dispatch key \<open>type(msg)\<close>)
  and whether it is an instance of \<open>BaseMessage\<close>.
\<close>

record message =
  sender :: peer_id
  msg_type :: string
  is_base_message :: bool

text \<open>
  Modelled from the spec: the class \<open>Hello\<close> (p2psimpy.messages) is not under
  src/. It is a protocol message, derived from the base type, tagged with its sender.
\<close>

definition Hello :: "peer_id \<Rightarrow> message" where
  "Hello self = \<lparr>sender = self, msg_type = ''Hello'', is_base_message = True\<rparr>"

text \<open>
  A service object: \<open>type(service).__name__\<close>, whether it is an instance of
  \<open>BaseHandler\<close> and of \<open>BaseRunner\<close>, and the message types it declares.
\<close>

record service =
  serv_name :: string
  is_handler :: bool
  is_runner :: bool
  messages :: "string list"

record peer =
  name :: string
  location :: string
  bandwidth_ul :: rat
  bandwidth_dl :: rat
  online :: bool
  connections :: "(peer_id, connection) dict"
  disconnect_callbacks :: "cb_id list"
  handlers :: "(string, service) dict"
  mh_map :: "(string, string list) dict"
  runners :: "(string, service) dict"
  storage :: "(string, storage_id) dict"

text \<open>
  Calls that leave the core (a connection's \<open>send\<close>, a handler's
  \<open>handle_message\<close>, a disconnect callback, a runner's \<open>start\<close>, a storage's
  \<open>add\<close>) are recorded, in order, in a trace of events.
\<close>

datatype event =
    CnxSend connection message bool
  | HandleMessage peer_id service message
  | Callback cb_id peer_id peer_id
  | RunnerStart peer_id service
  | StorageAdd storage_id nat message

text \<open>
  The state of a run: the object store, the trace, the process-wide random source
  (\<open>rand_src\<close> gives the n-th draw, \<open>rand_pos\<close> counts the draws made) and the next
  free object identity.
\<close>

record world =
  heap :: "peer_id \<Rightarrow> peer"
  trace :: "event list"
  rand_src :: "nat \<Rightarrow> nat"
  rand_pos :: nat
  next_id :: nat

definition upd_peer :: "world \<Rightarrow> peer_id \<Rightarrow> (peer \<Rightarrow> peer) \<Rightarrow> world" where
  "upd_peer w i f = w\<lparr>heap := (heap w)(i := f (heap w i))\<rparr>"

definition emit :: "world \<Rightarrow> event \<Rightarrow> world" where
  "emit w e = w\<lparr>trace := trace w @ [e]\<rparr>"

text \<open>\<open>Connection.send(msg, connect)\<close>: the message leaves the core.\<close>

definition cnx_send :: "world \<Rightarrow> connection \<Rightarrow> message \<Rightarrow> bool \<Rightarrow> world" where
  "cnx_send w cnx msg connect_flag = emit w (CnxSend cnx msg connect_flag)"

section \<open>Connection management\<close>

definition is_connected :: "world \<Rightarrow> peer_id \<Rightarrow> peer_id \<Rightarrow> bool" where
  "is_connected w self other = dict_contains (connections (heap w self)) other"

definition set_connection :: "world \<Rightarrow> peer_id \<Rightarrow> peer_id \<Rightarrow> connection \<Rightarrow> world" where
  "set_connection w self other cnx =
     upd_peer w self (\<lambda>p. p\<lparr>connections := dict_set (connections p) other cnx\<rparr>)"

definition del_connection :: "world \<Rightarrow> peer_id \<Rightarrow> peer_id \<Rightarrow> world" where
  "del_connection w self other =
     upd_peer w self (\<lambda>p. p\<lparr>connections := dict_del (connections p) other\<rparr>)"

definition bootstrap_connect :: "world \<Rightarrow> peer_id \<Rightarrow> peer_id \<Rightarrow> world" where
  "bootstrap_connect w self other =
     (let cnx = Connection self other in cnx_send w cnx (Hello self) True)"

text \<open>The number of directions of the pair that are not yet connected.\<close>

definition missing_links :: "world \<Rightarrow> peer_id \<Rightarrow> peer_id \<Rightarrow> nat" where
  "missing_links w a b =
     (if is_connected w a b then 0 else 1) + (if is_connected w b a then 0 else 1)"

definition present_links :: "world \<Rightarrow> peer_id \<Rightarrow> peer_id \<Rightarrow> nat" where
  "present_links w a b =
     (if is_connected w a b then 1 else 0) + (if is_connected w b a then 1 else 0)"

lemma is_connected_set_same:
  "is_connected (set_connection w a b c) a b"
  by (simp add: is_connected_def set_connection_def upd_peer_def dict_contains_def
      dict_set_def dom_update)

lemma is_connected_set_keep:
  "is_connected w x y \<Longrightarrow> is_connected (set_connection w a b c) x y"
  by (cases "x = a")
     (simp_all add: is_connected_def set_connection_def upd_peer_def dict_contains_def
      dict_set_def dom_update)

lemma is_connected_del_same:
  "\<not> is_connected (del_connection w a b) a b"
  by (auto simp add: is_connected_def del_connection_def upd_peer_def dict_contains_def
      dict_del_def delete_keys)

lemma is_connected_del_absent:
  "\<not> is_connected w x y \<Longrightarrow> \<not> is_connected (del_connection w a b) x y"
  by (cases "x = a")
     (auto simp add: is_connected_def del_connection_def upd_peer_def dict_contains_def
      dict_del_def delete_keys)

function connect :: "world \<Rightarrow> peer_id \<Rightarrow> peer_id \<Rightarrow> world" where
  "connect w self other =
     (if \<not> is_connected w self other then
        (let w1 = set_connection w self other (Connection self other)
         in if \<not> is_connected w1 other self then connect w1 other self else w1)
      else w)"
  by pat_completeness auto
termination
proof (relation "measure (\<lambda>(w, a, b). missing_links w a b)")
  show "wf (measure (\<lambda>(w, a, b). missing_links w a b))" by simp
next
  fix w self other w1
  assume nc: "\<not> is_connected w self other"
    and w1: "w1 = set_connection w self other (Connection self other)"
    and nr: "\<not> is_connected w1 other self"
  have a: "is_connected w1 self other"
    using w1 by (simp add: is_connected_set_same)
  have b: "\<not> is_connected w other self"
    using nr w1 is_connected_set_keep by blast
  show "((w1, other, self), (w, self, other)) \<in> measure (\<lambda>(w, a, b). missing_links w a b)"
    using nc nr a b by (simp add: missing_links_def)
qed

declare connect.simps [simp del]

text \<open>\<open>for cb in self.disconnect_callbacks: cb(self, other)\<close>\<close>

fun run_callbacks :: "world \<Rightarrow> cb_id list \<Rightarrow> peer_id \<Rightarrow> peer_id \<Rightarrow> world" where
  "run_callbacks w [] self other = w"
| "run_callbacks w (cb # cbs) self other =
     run_callbacks (emit w (Callback cb self other)) cbs self other"

function disconnect :: "world \<Rightarrow> peer_id \<Rightarrow> peer_id \<Rightarrow> world" where
  "disconnect w self other =
     (if is_connected w self other then
        (let w1 = del_connection w self other;
             w2 = (if is_connected w1 other self then disconnect w1 other self else w1)
         in run_callbacks w2 (disconnect_callbacks (heap w2 self)) self other)
      else w)"
  by pat_completeness auto
termination
proof (relation "measure (\<lambda>(w, a, b). present_links w a b)")
  show "wf (measure (\<lambda>(w, a, b). present_links w a b))" by simp
next
  fix w self other w1
  assume c: "is_connected w self other"
    and w1: "w1 = del_connection w self other"
    and r: "is_connected w1 other self"
  have a: "\<not> is_connected w1 self other"
    using w1 by (simp add: is_connected_del_same)
  have b: "is_connected w other self"
    using r w1 is_connected_del_absent by blast
  show "((w1, other, self), (w, self, other)) \<in> measure (\<lambda>(w, a, b). present_links w a b)"
    using c r a b by (simp add: present_links_def)
qed

declare disconnect.simps [simp del]

section \<open>Dispatch, send, gossip and broadcast\<close>

text \<open>
  An operation that can raise returns the exception, if any, together with the state
  at that point: what it did before raising stays done. An \<open>assert\<close> is taken
  as executed; log messages are not part of the state.
\<close>

fun dispatch :: "world \<Rightarrow> peer_id \<Rightarrow> string list \<Rightarrow> message \<Rightarrow> error option \<times> world" where
  "dispatch w self [] msg = (None, w)"
| "dispatch w self (service_id # rest) msg =
     (case dict_get (handlers (heap w self)) service_id of
        None \<Rightarrow> (Some KeyError, w)
      | Some h \<Rightarrow> dispatch (emit w (HandleMessage self h msg)) self rest msg)"

definition receive :: "world \<Rightarrow> peer_id \<Rightarrow> message \<Rightarrow> error option \<times> world" where
  "receive w self msg =
     (if \<not> is_base_message msg then (Some AssertionError, w)
      else if \<not> dict_contains (mh_map (heap w self)) (msg_type msg)
      then (Some (NoHandler (msg_type msg)), w)
      else (case dict_get (mh_map (heap w self)) (msg_type msg) of
              None \<Rightarrow> (Some KeyError, w)
            | Some names \<Rightarrow> dispatch w self names msg))"

definition send :: "world \<Rightarrow> peer_id \<Rightarrow> peer_id \<Rightarrow> message \<Rightarrow> error option \<times> world" where
  "send w self receiver msg =
     (if sender msg \<noteq> self then (Some AssertionError, w)
      else if \<not> dict_contains (connections (heap w self)) receiver
      then (Some NotConnected, w)
      else (case dict_get (connections (heap w self)) receiver of
              None \<Rightarrow> (Some KeyError, w)
            | Some cnx \<Rightarrow> (None, cnx_send w cnx msg False)))"

text \<open>\<open>for other in others: self.send(other, msg)\<close>\<close>

fun send_each :: "world \<Rightarrow> peer_id \<Rightarrow> peer_id list \<Rightarrow> message \<Rightarrow> error option \<times> world" where
  "send_each w self [] msg = (None, w)"
| "send_each w self (other # rest) msg =
     (case send w self other msg of
        (Some e, w1) \<Rightarrow> (Some e, w1)
      | (None, w1) \<Rightarrow> send_each w1 self rest msg)"

text \<open>
  The random source. One draw reads the next number of the source. \<open>random.sample\<close>
  of Python's library picks \<open>k\<close> positions of the population without replacement
  and raises \<open>ValueError\<close> when \<open>k\<close> is negative or larger than the population;
  \<open>random.choice\<close> picks one position and raises \<open>IndexError\<close> on an empty
  sequence. Every selection the library can make is the selection of some source.
\<close>

definition draw :: "world \<Rightarrow> nat \<times> world" where
  "draw w = (rand_src w (rand_pos w), w\<lparr>rand_pos := Suc (rand_pos w)\<rparr>)"

fun sample_from :: "world \<Rightarrow> 'a list \<Rightarrow> nat \<Rightarrow> 'a list \<times> world" where
  "sample_from w xs 0 = ([], w)"
| "sample_from w xs (Suc k) =
     (if xs = [] then ([], w)
      else (let (r, w1) = draw w;
                i = r mod length xs;
                (ys, w2) = sample_from w1 (take i xs @ drop (Suc i) xs) k
            in (xs ! i # ys, w2)))"

definition random_sample :: "world \<Rightarrow> 'a list \<Rightarrow> int \<Rightarrow> (error + 'a list) \<times> world" where
  "random_sample w population k =
     (if k < 0 \<or> int (length population) < k then (Inl ValueError, w)
      else (let (ys, w1) = sample_from w population (nat k) in (Inr ys, w1)))"

definition random_choice :: "world \<Rightarrow> 'a list \<Rightarrow> (error + 'a) \<times> world" where
  "random_choice w xs =
     (if xs = [] then (Inl IndexError, w)
      else (let (r, w1) = draw w in (Inr (xs ! (r mod length xs)), w1)))"

text \<open>
  \<open>gossip\<close>: an omitted \<open>except_set\<close> is \<open>None\<close>. The candidates are a Python
  set, listed without repetition.
\<close>

definition gossip ::
  "world \<Rightarrow> peer_id \<Rightarrow> message \<Rightarrow> int \<Rightarrow> peer_id set option \<Rightarrow> error option \<times> world" where
  "gossip w self msg f except_set =
     (let except = (case except_set of None \<Rightarrow> {} | Some E \<Rightarrow> E);
          gossip_set = filter (\<lambda>k. k \<notin> except)
                         (remdups (dict_keys (connections (heap w self))))
      in case random_sample w gossip_set (min f (int (length gossip_set))) of
           (Inl e, w1) \<Rightarrow> (Some e, w1)
         | (Inr chosen, w1) \<Rightarrow> send_each w1 self chosen msg)"

definition broadcast :: "world \<Rightarrow> peer_id \<Rightarrow> message \<Rightarrow> error option \<times> world" where
  "broadcast w self msg = send_each w self (dict_keys (connections (heap w self))) msg"

section \<open>Services and storage\<close>

text \<open>
  A Python set of service names. The code iterates such a set in hash order, which is
  not specified; the list keeps the order in which the names were added, and no
  statement below depends on the order.
\<close>

definition set_add :: "string list \<Rightarrow> string \<Rightarrow> string list" where
  "set_add names n = (if n \<in> set names then names else names @ [n])"

text \<open>
  One round of the loop of \<open>add_service\<close>:
  \<open>if m not in self.mh_map: self.mh_map[m] = set()\<close>, then
  \<open>self.mh_map[m].add(serv_name)\<close>.
\<close>

definition mh_add :: "(string, string list) dict \<Rightarrow> string \<Rightarrow> string \<Rightarrow> (string, string list) dict" where
  "mh_add mh m sn =
     (let mh1 = (if \<not> dict_contains mh m then dict_set mh m [] else mh)
      in case dict_get mh1 m of
           None \<Rightarrow> mh1
         | Some names \<Rightarrow> dict_set mh1 m (set_add names sn))"

fun mh_add_all :: "(string, string list) dict \<Rightarrow> string list \<Rightarrow> string \<Rightarrow> (string, string list) dict" where
  "mh_add_all mh [] sn = mh"
| "mh_add_all mh (m # ms) sn = mh_add_all (mh_add mh m sn) ms sn"

definition add_service_peer :: "peer \<Rightarrow> service \<Rightarrow> peer" where
  "add_service_peer p srv =
     (let sn = serv_name srv;
          p1 = (if is_handler srv
                then p\<lparr>handlers := dict_set (handlers p) sn srv,
                       mh_map := mh_add_all (mh_map p) (messages srv) sn\<rparr>
                else p)
      in if is_runner srv then p1\<lparr>runners := dict_set (runners p1) sn srv\<rparr> else p1)"

definition add_service :: "world \<Rightarrow> peer_id \<Rightarrow> service \<Rightarrow> world" where
  "add_service w self srv = upd_peer w self (\<lambda>p. add_service_peer p srv)"

fun start_each :: "world \<Rightarrow> peer_id \<Rightarrow> service list \<Rightarrow> world" where
  "start_each w self [] = w"
| "start_each w self (runner # rest) = start_each (emit w (RunnerStart self runner)) self rest"

definition start_all_runners :: "world \<Rightarrow> peer_id \<Rightarrow> world" where
  "start_all_runners w self = start_each w self (dict_values (runners (heap w self)))"

definition store :: "world \<Rightarrow> peer_id \<Rightarrow> string \<Rightarrow> nat \<Rightarrow> message \<Rightarrow> error option \<times> world" where
  "store w self storage_name msg_id msg =
     (if \<not> dict_contains (storage (heap w self)) storage_name
      then (Some (NoStorage storage_name), w)
      else (case dict_get (storage (heap w self)) storage_name of
              None \<Rightarrow> (Some KeyError, w)
            | Some st \<Rightarrow> (None, emit w (StorageAdd st msg_id msg))))"

definition add_storage :: "world \<Rightarrow> peer_id \<Rightarrow> string \<Rightarrow> storage_id \<Rightarrow> world" where
  "add_storage w self storage_name st =
     upd_peer w self (\<lambda>p. p\<lparr>storage := dict_set (storage p) storage_name st\<rparr>)"

text \<open>
  The invariant of the route table: every service name in a value of \<open>mh_map\<close> is a
  key of \<open>handlers\<close>.
\<close>

definition mh_inv :: "peer \<Rightarrow> bool" where
  "mh_inv p =
     list_all (\<lambda>e. list_all (\<lambda>n. dict_contains (handlers p) n) (snd e)) (mh_map p)"

text \<open>\<open>Peer.__init__\<close>: a new peer is online and has no connection, callback, service or storage.\<close>

definition Peer_init :: "string \<Rightarrow> string \<Rightarrow> rat \<Rightarrow> rat \<Rightarrow> peer" where
  "Peer_init nm loc ul dl =
     \<lparr>name = nm, location = loc, bandwidth_ul = ul, bandwidth_dl = dl, online = True,
      connections = [], disconnect_callbacks = [], handlers = [], mh_map = [],
      runners = [], storage = []\<rparr>"

section \<open>The population layer (src/p2psimpy/simulation.py)\<close>

text \<open>
  The simulation keeps the peers of each type, in order, and the bootstrap peers.
  \<open>Simulation.__init__\<close> assigns \<open>peers\<close> and never assigns
  \<open>bootstrap_peers\<close>: an attribute that was never assigned is \<open>None\<close> here, and
  reading it raises \<open>AttributeError\<close>.
\<close>

record simulation =
  peers :: "(string, peer_id list) dict"
  bootstrap_peers :: "peer_id list option"

definition Simulation_init :: simulation where
  "Simulation_init = \<lparr>peers = [], bootstrap_peers = None\<rparr>"

text \<open>
  Modelled from the spec: the class \<open>PeerFactory\<close> (p2psimpy.peer_factory) is not
  under src/. Its contract in the spec is \<open>createPeer(env, peerType) -> Peer\<close>, a
  new peer pre-wired with the services configured for that type. The factory is a
  parameter: it gives, for a peer type and the identity of the new object, the
  arguments of \<open>Peer.__init__\<close> and the services to add.
\<close>

record peer_conf =
  conf_name :: string
  conf_location :: string
  conf_ul :: rat
  conf_dl :: rat
  conf_services :: "service list"

type_synonym factory = "string \<Rightarrow> nat \<Rightarrow> peer_conf"

definition create_peer :: "factory \<Rightarrow> world \<Rightarrow> string \<Rightarrow> peer_id \<times> world" where
  "create_peer fac w peer_type =
     (let pid = next_id w;
          c = fac peer_type pid;
          p = foldl add_service_peer
                (Peer_init (conf_name c) (conf_location c) (conf_ul c) (conf_dl c))
                (conf_services c)
      in (pid, w\<lparr>heap := (heap w)(pid := p), next_id := Suc pid\<rparr>))"

fun init_bootstrap_servers ::
  "factory \<Rightarrow> world \<Rightarrow> simulation \<Rightarrow> nat \<Rightarrow> error option \<times> world \<times> simulation" where
  "init_bootstrap_servers fac w sim 0 = (None, w, sim)"
| "init_bootstrap_servers fac w sim (Suc n) =
     (let (p, w1) = create_peer fac w ''bootstrap''
      in case bootstrap_peers sim of
           None \<Rightarrow> (Some AttributeError, w1, sim)
         | Some bs \<Rightarrow>
             init_bootstrap_servers fac (start_all_runners w1 p)
               (sim\<lparr>bootstrap_peers := Some (bs @ [p])\<rparr>) n)"

text \<open>
  \<open>if peer_type not in self.peers: self.peers[peer_type] = list()\<close>, then
  \<open>self.peers[peer_type].append(p)\<close>.
\<close>

definition record_peer :: "simulation \<Rightarrow> string \<Rightarrow> peer_id \<Rightarrow> simulation" where
  "record_peer sim peer_type p =
     (let ps = (if \<not> dict_contains (peers sim) peer_type
                then dict_set (peers sim) peer_type [] else peers sim)
      in case dict_get ps peer_type of
           None \<Rightarrow> sim\<lparr>peers := ps\<rparr>
         | Some l \<Rightarrow> sim\<lparr>peers := dict_set ps peer_type (l @ [p])\<rparr>)"

fun add_peers ::
  "factory \<Rightarrow> world \<Rightarrow> simulation \<Rightarrow> nat \<Rightarrow> string \<Rightarrow> error option \<times> world \<times> simulation" where
  "add_peers fac w sim 0 peer_type = (None, w, sim)"
| "add_peers fac w sim (Suc n) peer_type =
     (let (p, w1) = create_peer fac w peer_type
      in case bootstrap_peers sim of
           None \<Rightarrow> (Some AttributeError, w1, sim)
         | Some bs \<Rightarrow>
             (case random_choice w1 bs of
                (Inl e, w2) \<Rightarrow> (Some e, w2, sim)
              | (Inr bootstrap_server, w2) \<Rightarrow>
                  add_peers fac (bootstrap_connect w2 p bootstrap_server)
                    (record_peer sim peer_type p) n peer_type))"

definition start_all_peers :: "world \<Rightarrow> simulation \<Rightarrow> world" where
  "start_all_peers w sim =
     foldl (\<lambda>w1 t. foldl start_all_runners w1 (snd t)) w (peers sim)"

text \<open>
  The graph of the networkx library, as far as \<open>get_graph\<close> uses it: the nodes in
  the order they were added, and each undirected edge once, with its weight.
  \<open>add_node\<close> of a present node and \<open>add_edge\<close> of a present edge add nothing
  (the latter replaces the weight); \<open>add_edge\<close> adds the end points it misses.
  Weights are the bandwidths, rationals here.
\<close>

record graph =
  g_nodes :: "string list"
  g_edges :: "((string \<times> string) \<times> rat) list"

definition empty_graph :: graph where
  "empty_graph = \<lparr>g_nodes = [], g_edges = []\<rparr>"

definition add_node :: "graph \<Rightarrow> string \<Rightarrow> graph" where
  "add_node g n = (if n \<in> set (g_nodes g) then g else g\<lparr>g_nodes := g_nodes g @ [n]\<rparr>)"

definition add_edge :: "graph \<Rightarrow> string \<Rightarrow> string \<Rightarrow> rat \<Rightarrow> graph" where
  "add_edge g u v wt =
     (let g1 = add_node (add_node g u) v
      in if dict_contains (g_edges g1) (v, u)
         then g1\<lparr>g_edges := dict_set (g_edges g1) (v, u) wt\<rparr>
         else g1\<lparr>g_edges := dict_set (g_edges g1) (u, v) wt\<rparr>)"

definition startswith :: "string \<Rightarrow> string \<Rightarrow> bool" where
  "startswith s prefix = (take (length prefix) s = prefix)"

text \<open>The inner loop of \<open>get_graph\<close>, over the items of one peer's connections.\<close>

fun graph_edges ::
  "(connection \<Rightarrow> rat) \<Rightarrow> world \<Rightarrow> bool \<Rightarrow> peer_id \<Rightarrow> graph \<Rightarrow> (peer_id \<times> connection) list \<Rightarrow> graph" where
  "graph_edges bw w incl peer g [] = g"
| "graph_edges bw w incl peer g ((other, cnx) # rest) =
     graph_edges bw w incl peer
       (if incl \<or> \<not> startswith (name (heap w other)) ''bootstrap''
        then add_edge g (name (heap w peer)) (name (heap w other)) (bw cnx)
        else g)
       rest"

fun graph_peers ::
  "(connection \<Rightarrow> rat) \<Rightarrow> world \<Rightarrow> bool \<Rightarrow> graph \<Rightarrow> peer_id list \<Rightarrow> graph" where
  "graph_peers bw w incl g [] = g"
| "graph_peers bw w incl g (peer # rest) =
     graph_peers bw w incl
       (graph_edges bw w incl peer (add_node g (name (heap w peer)))
          (connections (heap w peer)))
       rest"

definition get_graph ::
  "(connection \<Rightarrow> rat) \<Rightarrow> world \<Rightarrow> simulation \<Rightarrow> bool \<Rightarrow> error + graph" where
  "get_graph bw w sim include_bootstrap_peers =
     (let current_peers = concat (dict_values (peers sim))
      in if include_bootstrap_peers
         then (case bootstrap_peers sim of
                 None \<Rightarrow> Inl AttributeError
               | Some bs \<Rightarrow> Inr (graph_peers bw w True empty_graph (current_peers @ bs)))
         else Inr (graph_peers bw w False empty_graph current_peers))"

text \<open>
  The loops of \<open>avg_bandwidth\<close> and \<open>median_bandwidth\<close> run over
  \<open>self.peers\<close>, a dictionary: the loop variable takes its keys, which are strings.
  A value the loop variable can hold is a string or a peer, and reading the attribute
  \<open>connections\<close> of a string raises \<open>AttributeError\<close>.
\<close>

datatype pyobj = PyStr string | PyPeer peer_id

fun connections_of :: "world \<Rightarrow> pyobj \<Rightarrow> error + (peer_id, connection) dict" where
  "connections_of w (PyStr s) = Inl AttributeError"
| "connections_of w (PyPeer p) = Inr (connections (heap w p))"

fun collect_bws ::
  "(connection \<Rightarrow> rat) \<Rightarrow> world \<Rightarrow> pyobj list \<Rightarrow> rat list \<Rightarrow> error + rat list" where
  "collect_bws bw w [] bws = Inr bws"
| "collect_bws bw w (peer # rest) bws =
     (case connections_of w peer of
        Inl e \<Rightarrow> Inl e
      | Inr cs \<Rightarrow> collect_bws bw w rest (bws @ map bw (dict_values cs)))"

definition avg_bandwidth :: "(connection \<Rightarrow> rat) \<Rightarrow> world \<Rightarrow> simulation \<Rightarrow> error + rat" where
  "avg_bandwidth bw w sim =
     (case collect_bws bw w (map PyStr (dict_keys (peers sim))) [] of
        Inl e \<Rightarrow> Inl e
      | Inr bws \<Rightarrow>
          if length bws = 0 then Inl ZeroDivisionError
          else Inr (sum_list bws / of_nat (length bws)))"

definition median_bandwidth :: "(connection \<Rightarrow> rat) \<Rightarrow> world \<Rightarrow> simulation \<Rightarrow> error + rat" where
  "median_bandwidth bw w sim =
     (case collect_bws bw w (map PyStr (dict_keys (peers sim))) [] of
        Inl e \<Rightarrow> Inl e
      | Inr bws \<Rightarrow>
          (let sorted_bws = sort bws; i = length sorted_bws div 2
           in if i < length sorted_bws then Inr (sorted_bws ! i) else Inl IndexError))"

text \<open>
  What the spec's mean and median of all connections of all recorded peers are, for
  comparison: the bandwidths of the connections of the peers in the lists of
  \<open>peers\<close>.
\<close>

definition recorded_bandwidths :: "(connection \<Rightarrow> rat) \<Rightarrow> world \<Rightarrow> simulation \<Rightarrow> rat list" where
  "recorded_bandwidths bw w sim =
     concat (map (\<lambda>p. map bw (dict_values (connections (heap w p))))
               (concat (dict_values (peers sim))))"

text \<open>The peers a state holds that are isolated: named as given, with no connection.\<close>

definition isolated :: "world \<Rightarrow> peer_id \<Rightarrow> string \<Rightarrow> bool" where
  "isolated w p nm = (name (heap w p) = nm \<and> connections (heap w p) = [])"

text \<open>
  The scenario of the spec: one bootstrap server, three peers of type basic, all peers
  started.
\<close>

definition scenario :: "factory \<Rightarrow> world \<Rightarrow> simulation \<Rightarrow> error option \<times> world \<times> simulation" where
  "scenario fac w sim =
     (case init_bootstrap_servers fac w sim 1 of
        (Some e, w1, s1) \<Rightarrow> (Some e, w1, s1)
      | (None, w1, s1) \<Rightarrow>
          (case add_peers fac w1 s1 3 ''basic'' of
             (Some e, w2, s2) \<Rightarrow> (Some e, w2, s2)
           | (None, w2, s2) \<Rightarrow> (None, start_all_peers w2 s2, s2)))"

text \<open>The callbacks invoked with the arguments \<open>(a, b)\<close> in a stretch of the trace, in order.\<close>

fun cb_calls :: "event list \<Rightarrow> peer_id \<Rightarrow> peer_id \<Rightarrow> cb_id list" where
  "cb_calls [] a b = []"
| "cb_calls (Callback c x y # es) a b =
     (if x = a \<and> y = b then c # cb_calls es a b else cb_calls es a b)"
| "cb_calls (e # es) a b = cb_calls es a b"

text \<open>
  Example states: freshly constructed peers, and the state in which peer 2, with two
  disconnect callbacks registered, has connected to peer 3.
\<close>

definition example_world :: world where
  "example_world =
     \<lparr>heap = (\<lambda>i. Peer_init ''peer'' ''Ohio'' 10 10), trace = [],
      rand_src = (\<lambda>n. n), rand_pos = 0, next_id = 4\<rparr>"

definition linked_world :: world where
  "linked_world =
     connect (upd_peer example_world 2 (\<lambda>p. p\<lparr>disconnect_callbacks := [7, 8]\<rparr>)) 2 3"

text \<open>
  Predicates of the proofs about the route table: all names of the table lie in a set;
  a message type is routed to a name; the name sets hold no name twice; and the
  invariant that \<open>add_service\<close> establishes between \<open>handlers\<close> and \<open>mh_map\<close>.
\<close>

definition names_in :: "string set \<Rightarrow> (string, string list) dict \<Rightarrow> bool" where
  "names_in H mh = (\<forall>e \<in> set mh. set (snd e) \<subseteq> H)"

definition routes :: "(string, string list) dict \<Rightarrow> string \<Rightarrow> string \<Rightarrow> bool" where
  "routes mh m n = (\<exists>names. dict_get mh m = Some names \<and> n \<in> set names)"

definition sets_ok :: "(string, string list) dict \<Rightarrow> bool" where
  "sets_ok mh = (\<forall>e \<in> set mh. distinct (snd e))"

definition reg_inv :: "peer \<Rightarrow> bool" where
  "reg_inv p =
     ((\<forall>n s. dict_get (handlers p) n = Some s \<longrightarrow>
         serv_name s = n \<and> (\<forall>m \<in> set (messages s). routes (mh_map p) m n)) \<and>
      (\<forall>e \<in> set (mh_map p). distinct (snd e)) \<and>
      mh_inv p)"

text \<open>
  Example services, messages and a state in which peer 2 has a storage and a handler.
\<close>

definition block_handler :: service where
  "block_handler =
     \<lparr>serv_name = ''BlockHandler'', is_handler = True, is_runner = False,
      messages = [''Block'', ''Tx'']\<rparr>"

definition block_msg :: message where
  "block_msg = \<lparr>sender = 2, msg_type = ''Block'', is_base_message = True\<rparr>"

definition stored_world :: world where
  "stored_world = add_storage linked_world 2 ''blocks'' 5"

definition served_world :: world where
  "served_world = add_service stored_world 2 block_handler"

text \<open>
  An example factory: the name of a peer is its type and the last digit of its
  identity; every peer gets one runner.
\<close>

definition ticker :: service where
  "ticker = \<lparr>serv_name = ''Ticker'', is_handler = False, is_runner = True, messages = []\<rparr>"

definition example_factory :: factory where
  "example_factory peer_type i =
     \<lparr>conf_name = peer_type @ ''_'' @ [''0123456789'' ! (i mod 10)],
      conf_location = ''Ohio'', conf_ul = 10, conf_dl = 10, conf_services = [ticker]\<rparr>"

text \<open>
  A simulation as the assignment \<open>self.bootstrap_peers = []\<close>, which
  \<open>Simulation.__init__\<close> lacks, would leave it; and one that records the two
  connected peers of the example state.
\<close>

definition started_sim :: simulation where
  "started_sim = \<lparr>peers = [], bootstrap_peers = Some []\<rparr>"

definition linked_sim :: simulation where
  "linked_sim = \<lparr>peers = [(''basic'', [2, 3])], bootstrap_peers = Some []\<rparr>"

section \<open>Symmetry and idempotence of connect and disconnect\<close>

lemma connect_closed:
  "connect w a b =
     (if is_connected w a b then w
      else (let w1 = set_connection w a b (Connection a b)
            in if is_connected w1 b a then w1
               else set_connection w1 b a (Connection b a)))"
proof (cases "is_connected w a b")
  case True
  then show ?thesis by (simp add: connect.simps [of w a b])
next
  case False
  define w1 where "w1 = set_connection w a b (Connection a b)"
  show ?thesis
  proof (cases "is_connected w1 b a")
    case True
    with False show ?thesis
      by (simp add: connect.simps [of w a b] w1_def)
  next
    case nr: False
    define w2 where "w2 = set_connection w1 b a (Connection b a)"
    have "is_connected w1 a b"
      by (simp add: w1_def is_connected_set_same)
    then have "is_connected w2 a b"
      by (simp add: w2_def is_connected_set_keep)
    with nr have "connect w1 b a = w2"
      by (simp add: connect.simps [of w1 b a] w2_def [symmetric])
    with False nr show ?thesis
      by (simp add: connect.simps [of w a b] w1_def [symmetric] w2_def)
  qed
qed

lemma is_connected_set_iff:
  "is_connected (set_connection w a b c) x y = (is_connected w x y \<or> (x = a \<and> y = b))"
  by (auto simp add: is_connected_def set_connection_def upd_peer_def dict_contains_def
      dict_set_def dom_update)

lemma is_connected_del_iff:
  "is_connected (del_connection w a b) x y = (is_connected w x y \<and> \<not> (x = a \<and> y = b))"
  by (cases "x = a")
     (simp_all add: is_connected_def del_connection_def upd_peer_def dict_contains_def
      dict_del_def delete_keys)

lemma is_connected_connect_iff:
  "is_connected (connect w a b) x y =
     (is_connected w x y \<or> (\<not> is_connected w a b \<and> ((x = a \<and> y = b) \<or> (x = b \<and> y = a))))"
proof (cases "is_connected w a b")
  case True
  then have "connect w a b = w"
    by (simp add: connect.simps [of w a b])
  with True show ?thesis by simp
next
  case False
  define w1 where "w1 = set_connection w a b (Connection a b)"
  define w2 where "w2 = set_connection w1 b a (Connection b a)"
  have c1: "is_connected w1 x y = (is_connected w x y \<or> (x = a \<and> y = b))" for x y
    unfolding w1_def by (rule is_connected_set_iff)
  have c2: "is_connected w2 x y = (is_connected w1 x y \<or> (x = b \<and> y = a))" for x y
    unfolding w2_def by (rule is_connected_set_iff)
  show ?thesis
  proof (cases "is_connected w1 b a")
    case True
    with False have "connect w a b = w1"
      by (simp add: connect_closed [of w a b] w1_def [symmetric])
    with False True c1 show ?thesis by metis
  next
    case nr: False
    with False have "connect w a b = w2"
      by (simp add: connect_closed [of w a b] w1_def [symmetric] w2_def)
    with False c1 c2 show ?thesis by metis
  qed
qed

text \<open>
  Claim C1. After \<open>A.connect(B)\<close> returns, \<open>A.is_connected(B)\<close> and
  \<open>B.is_connected(A)\<close> are both true. The state before the call satisfies the
  symmetry invariant of the data model for the pair: when A already lists B (and the
  call does nothing), B lists A. The recursion is total (the termination proof of
  \<open>connect\<close>) and the result is the closed form below, in which the reciprocal
  entry is written only when B does not already list A, and no further call follows.
\<close>

theorem connect_symmetric:
  assumes "is_connected w a b \<longrightarrow> is_connected w b a"
  shows "is_connected (connect w a b) a b \<and> is_connected (connect w a b) b a \<and>
    connect w a b =
     (if is_connected w a b then w
      else (let w1 = set_connection w a b (Connection a b)
            in if is_connected w1 b a then w1
               else set_connection w1 b a (Connection b a)))"
proof -
  have "is_connected (connect w a b) a b"
    by (simp add: is_connected_connect_iff)
  moreover have "is_connected (connect w a b) b a"
    using assms by (auto simp add: is_connected_connect_iff)
  ultimately show ?thesis
    using connect_closed [of w a b] by simp
qed

theorem connect_symmetric_witness:
  "\<not> is_connected example_world 2 3 \<and>
   is_connected (connect example_world 2 3) 2 3 \<and>
   is_connected (connect example_world 2 3) 3 2 \<and>
   connections (heap (connect example_world 2 3) 2) = [(3, Connection 2 3)] \<and>
   connections (heap (connect example_world 2 3) 3) = [(2, Connection 3 2)]"
proof -
  have n: "\<not> is_connected example_world 2 3"
    by (simp add: is_connected_def example_world_def Peer_init_def dict_contains_def)
  then have h: "is_connected example_world 2 3 \<longrightarrow> is_connected example_world 3 2"
    by simp
  show ?thesis using n connect_symmetric [OF h]
    by (simp add: is_connected_def example_world_def Peer_init_def dict_contains_def
      set_connection_def upd_peer_def dict_set_def Let_def)
qed

text \<open>
  The symmetry of the connections holds between newly constructed peers, which have
  no connection, and \<open>connect\<close> keeps it; \<open>disconnect\<close> keeps it as well.
\<close>

lemma connect_keeps_symmetry:
  assumes "\<And>x y. is_connected w x y \<Longrightarrow> is_connected w y x"
    and "is_connected (connect w a b) x y"
  shows "is_connected (connect w a b) y x"
  using assms by (auto simp add: is_connected_connect_iff)

lemma heap_run_callbacks: "heap (run_callbacks w cbs a b) = heap w"
  by (induction cbs arbitrary: w) (simp_all add: emit_def)

lemma trace_run_callbacks:
  "trace (run_callbacks w cbs a b) = trace w @ map (\<lambda>c. Callback c a b) cbs"
  by (induction cbs arbitrary: w) (simp_all add: emit_def)

lemma is_connected_run_callbacks:
  "is_connected (run_callbacks w cbs a b) x y = is_connected w x y"
  by (simp add: is_connected_def heap_run_callbacks)

lemma cbs_del_connection:
  "disconnect_callbacks (heap (del_connection w a b) x) = disconnect_callbacks (heap w x)"
  by (simp add: del_connection_def upd_peer_def)

lemma trace_del_connection: "trace (del_connection w a b) = trace w"
  by (simp add: del_connection_def upd_peer_def)

lemma disconnect_closed:
  "disconnect w a b =
     (if is_connected w a b then
        (let w1 = del_connection w a b;
             w2 = (if is_connected w1 b a
                   then run_callbacks (del_connection w1 b a) (disconnect_callbacks (heap w b)) b a
                   else w1)
         in run_callbacks w2 (disconnect_callbacks (heap w a)) a b)
      else w)"
proof (cases "is_connected w a b")
  case False
  then show ?thesis by (simp add: disconnect.simps [of w a b])
next
  case True
  define w1 where "w1 = del_connection w a b"
  have na: "\<not> is_connected w1 a b"
    by (simp add: w1_def is_connected_del_same)
  have cb1: "disconnect_callbacks (heap w1 x) = disconnect_callbacks (heap w x)" for x
    by (simp add: w1_def cbs_del_connection)
  show ?thesis
  proof (cases "is_connected w1 b a")
    case False
    with True show ?thesis
      by (simp add: disconnect.simps [of w a b] w1_def [symmetric] cb1)
  next
    case r: True
    have "\<not> is_connected (del_connection w1 b a) a b"
      using na by (rule is_connected_del_absent)
    with r have "disconnect w1 b a =
        run_callbacks (del_connection w1 b a) (disconnect_callbacks (heap w b)) b a"
      by (simp add: disconnect.simps [of w1 b a] Let_def cbs_del_connection cb1)
    with True r show ?thesis
      by (simp add: disconnect.simps [of w a b] w1_def [symmetric] Let_def
          heap_run_callbacks cbs_del_connection cb1)
  qed
qed

lemma is_connected_disconnect_iff:
  "is_connected (disconnect w a b) x y =
     (is_connected w x y \<and>
      \<not> (is_connected w a b \<and> ((x = a \<and> y = b) \<or> (x = b \<and> y = a))))"
  by (auto simp add: disconnect_closed Let_def is_connected_del_iff
      is_connected_run_callbacks)

lemma disconnect_keeps_symmetry:
  assumes "\<And>x y. is_connected w x y \<Longrightarrow> is_connected w y x"
    and "is_connected (disconnect w a b) x y"
  shows "is_connected (disconnect w a b) y x"
  using assms by (auto simp add: is_connected_disconnect_iff)

lemma cb_calls_append: "cb_calls (es @ fs) a b = cb_calls es a b @ cb_calls fs a b"
  by (induction es a b rule: cb_calls.induct) simp_all

lemma cb_calls_map:
  "cb_calls (map (\<lambda>c. Callback c x y) cbs) a b = (if x = a \<and> y = b then cbs else [])"
  by (induction cbs) auto

lemma trace_disconnect:
  "trace (disconnect w a b) =
     trace w @
     (if is_connected w a b then
        (if a \<noteq> b \<and> is_connected w b a
         then map (\<lambda>c. Callback c b a) (disconnect_callbacks (heap w b)) else []) @
        map (\<lambda>c. Callback c a b) (disconnect_callbacks (heap w a))
      else [])"
  by (auto simp add: disconnect_closed Let_def trace_run_callbacks trace_del_connection
      is_connected_del_iff)

text \<open>
  Claim C2. For connected peers A and B, after \<open>A.disconnect(B)\<close> returns neither
  side lists the other, the trace before the call is a prefix of the trace after it,
  and the callbacks invoked with the arguments \<open>(A, B)\<close> during the call are
  exactly the entries of A's \<open>disconnect_callbacks\<close> list, each entry once, in order.
\<close>

theorem disconnect_symmetric_callbacks:
  assumes "is_connected w a b"
  shows "\<not> is_connected (disconnect w a b) a b \<and>
         \<not> is_connected (disconnect w a b) b a \<and>
         take (length (trace w)) (trace (disconnect w a b)) = trace w \<and>
         cb_calls (drop (length (trace w)) (trace (disconnect w a b))) a b =
           disconnect_callbacks (heap w a)"
  using assms
  by (simp add: is_connected_disconnect_iff trace_disconnect cb_calls_append cb_calls_map)

theorem disconnect_symmetric_callbacks_witness:
  "is_connected linked_world 2 3 \<and>
   \<not> is_connected (disconnect linked_world 2 3) 2 3 \<and>
   \<not> is_connected (disconnect linked_world 2 3) 3 2 \<and>
   cb_calls (drop (length (trace linked_world)) (trace (disconnect linked_world 2 3))) 2 3
     = [7, 8]"
proof -
  have h: "is_connected linked_world 2 3"
    by (simp add: is_connected_def example_world_def Peer_init_def dict_contains_def
        set_connection_def upd_peer_def dict_set_def Let_def linked_world_def connect_closed)
  have c: "disconnect_callbacks (heap linked_world 2) = [7, 8]"
    by (simp add: is_connected_def example_world_def Peer_init_def dict_contains_def
        set_connection_def upd_peer_def dict_set_def Let_def linked_world_def connect_closed)
  show ?thesis using h c disconnect_symmetric_callbacks [OF h]
    by simp
qed

lemma entries_for_distinct:
  "distinct (map fst d) \<Longrightarrow> k \<in> set (map fst d) \<Longrightarrow> entries_for d k = 1"
proof (induction d)
  case Nil
  then show ?case by simp
next
  case (Cons e d)
  show ?case
  proof (cases "fst e = k")
    case True
    with Cons.prems have "k \<notin> fst ` set d" by auto
    then have "filter (\<lambda>e. fst e = k) d = []"
      by (auto simp add: filter_empty_conv)
    with True show ?thesis by (simp add: entries_for_def)
  next
    case False
    with Cons show ?thesis by (simp add: entries_for_def)
  qed
qed

lemma keys_set_connection:
  "distinct (dict_keys (connections (heap w x))) \<Longrightarrow>
   distinct (dict_keys (connections (heap (set_connection w a b c) x)))"
  by (cases "x = a")
     (simp_all add: set_connection_def upd_peer_def dict_keys_def dict_set_def distinct_update)

lemma keys_connect:
  "distinct (dict_keys (connections (heap w x))) \<Longrightarrow>
   distinct (dict_keys (connections (heap (connect w a b) x)))"
  by (simp add: connect_closed Let_def keys_set_connection)

lemma connect_twice: "connect (connect w a b) a b = connect w a b"
  by (simp add: connect_closed [of "connect w a b" a b] is_connected_connect_iff)

lemma disconnect_unconnected: "\<not> is_connected w a b \<Longrightarrow> disconnect w a b = w"
  by (simp add: disconnect.simps [of w a b])

text \<open>
  Claim C3. In a state whose connection dictionaries hold each key once and which is
  symmetric for the pair, the second of two successive calls \<open>A.connect(B)\<close>
  changes nothing, and afterwards A's connections hold exactly one entry for B and B's
  exactly one entry for A. When A does not list B, \<open>A.disconnect(B)\<close> leaves the
  whole state unchanged: both connection dictionaries and the trace, so no callback
  is invoked.
\<close>

theorem connect_disconnect_idempotent:
  "(distinct (dict_keys (connections (heap w a))) \<and>
    distinct (dict_keys (connections (heap w b))) \<and>
    (is_connected w a b \<longrightarrow> is_connected w b a) \<longrightarrow>
      connect (connect w a b) a b = connect w a b \<and>
      entries_for (connections (heap (connect (connect w a b) a b) a)) b = 1 \<and>
      entries_for (connections (heap (connect (connect w a b) a b) b)) a = 1) \<and>
   (\<not> is_connected w a b \<longrightarrow>
      disconnect w a b = w \<and>
      connections (heap (disconnect w a b) a) = connections (heap w a) \<and>
      connections (heap (disconnect w a b) b) = connections (heap w b) \<and>
      trace (disconnect w a b) = trace w)"
proof -
  have "entries_for (connections (heap (connect w a b) a)) b = 1"
    if "distinct (dict_keys (connections (heap w a)))"
  proof -
    have "is_connected (connect w a b) a b"
      by (simp add: is_connected_connect_iff)
    then show ?thesis
      using keys_connect [OF that, of a b]
      by (simp add: entries_for_distinct is_connected_def dict_contains_def dict_keys_def)
  qed
  moreover have "entries_for (connections (heap (connect w a b) b)) a = 1"
    if "distinct (dict_keys (connections (heap w b)))"
      and "is_connected w a b \<longrightarrow> is_connected w b a"
  proof -
    have "is_connected (connect w a b) b a"
      using that(2) by (auto simp add: is_connected_connect_iff)
    then show ?thesis
      using keys_connect [OF that(1), of a b]
      by (simp add: entries_for_distinct is_connected_def dict_contains_def dict_keys_def)
  qed
  ultimately show ?thesis
    by (simp add: connect_twice disconnect_unconnected)
qed

theorem connect_disconnect_idempotent_witness:
  "distinct (dict_keys (connections (heap example_world 2))) \<and>
   distinct (dict_keys (connections (heap example_world 3))) \<and>
   \<not> is_connected example_world 2 3 \<and>
   connect (connect example_world 2 3) 2 3 = connect example_world 2 3 \<and>
   entries_for (connections (heap (connect (connect example_world 2 3) 2 3) 2)) 3 = 1 \<and>
   entries_for (connections (heap (connect (connect example_world 2 3) 2 3) 3)) 2 = 1 \<and>
   disconnect example_world 2 3 = example_world"
proof -
  have h: "distinct (dict_keys (connections (heap example_world 2))) \<and>
   distinct (dict_keys (connections (heap example_world 3))) \<and>
   (is_connected example_world 2 3 \<longrightarrow> is_connected example_world 3 2)"
    by (simp add: is_connected_def example_world_def Peer_init_def dict_contains_def dict_keys_def)
  have n: "\<not> is_connected example_world 2 3"
    by (simp add: is_connected_def example_world_def Peer_init_def dict_contains_def)
  show ?thesis using h n connect_disconnect_idempotent [of example_world 2 3]
    by blast
qed

section \<open>Errors, dispatch and the route table\<close>

lemma dict_get_Some_contains: "dict_get d k = Some v \<Longrightarrow> dict_contains d k"
  by (auto simp add: dict_contains_def dict_get_def dest: map_of_SomeD intro: rev_image_eqI)

text \<open>
  Claim C6. Each fatal condition raises, and leaves the state as it was:
  \<open>receive\<close> raises for a message that is not an instance of the base message
  type and for a message whose type has no entry in \<open>mh_map\<close>; \<open>send\<close> raises
  for a message whose sender is not the sending peer and for a receiver absent from
  the connections; \<open>store\<close> raises when no storage is registered under the name,
  and otherwise calls that storage's \<open>add\<close> with the identifier and the value.
\<close>

theorem fatal_conditions_raise:
  "(\<not> is_base_message m1 \<longrightarrow> receive w p m1 = (Some AssertionError, w)) \<and>
   (\<not> dict_contains (mh_map (heap w p)) (msg_type m2) \<longrightarrow>
      fst (receive w p m2) \<noteq> None \<and> snd (receive w p m2) = w \<and>
      (is_base_message m2 \<longrightarrow> receive w p m2 = (Some (NoHandler (msg_type m2)), w))) \<and>
   (sender m3 \<noteq> p \<longrightarrow> send w p r3 m3 = (Some AssertionError, w)) \<and>
   (\<not> dict_contains (connections (heap w p)) r4 \<longrightarrow>
      fst (send w p r4 m4) \<noteq> None \<and> snd (send w p r4 m4) = w \<and>
      (sender m4 = p \<longrightarrow> send w p r4 m4 = (Some NotConnected, w))) \<and>
   (\<not> dict_contains (storage (heap w p)) nm5 \<longrightarrow>
      store w p nm5 i5 v5 = (Some (NoStorage nm5), w)) \<and>
   (dict_get (storage (heap w p)) nm6 = Some st \<longrightarrow>
      store w p nm6 i6 v6 = (None, emit w (StorageAdd st i6 v6)))"
  by (auto simp add: receive_def send_def store_def dest: dict_get_Some_contains)

text \<open>
  Claim C10. \<open>p.bootstrap_connect(other)\<close> leaves the object store unchanged, so
  both connection dictionaries and every answer of \<open>is_connected\<close> are what they
  were; its one effect is the send, over a newly constructed connection from p to
  other, of one \<open>Hello\<close> message whose sender is p, with the connect flag set.
\<close>

theorem bootstrap_connect_frame:
  "heap (bootstrap_connect w p other) = heap w \<and>
   connections (heap (bootstrap_connect w p other) p) = connections (heap w p) \<and>
   connections (heap (bootstrap_connect w p other) other) = connections (heap w other) \<and>
   is_connected (bootstrap_connect w p other) p other = is_connected w p other \<and>
   is_connected (bootstrap_connect w p other) other p = is_connected w other p \<and>
   bootstrap_connect w p other =
     w\<lparr>trace := trace w @ [CnxSend (Connection p other) (Hello p) True]\<rparr> \<and>
   cnx_sender (Connection p other) = p \<and> cnx_receiver (Connection p other) = other \<and>
   sender (Hello p) = p"
  by (simp add: bootstrap_connect_def cnx_send_def emit_def is_connected_def Let_def
      Connection_def Hello_def)

lemma set_update_cases:
  "e \<in> set (AList.update k v al) \<Longrightarrow> e = (k, v) \<or> e \<in> set al"
  by (induction al) (auto split: if_splits)

lemma mh_inv_names_in: "mh_inv p = names_in (set (map fst (handlers p))) (mh_map p)"
  by (auto simp add: mh_inv_def names_in_def list_all_iff dict_contains_def)

lemma names_in_mono: "names_in H mh \<Longrightarrow> H \<subseteq> H' \<Longrightarrow> names_in H' mh"
  by (auto simp add: names_in_def)

lemma names_in_dict_set:
  "names_in H mh \<Longrightarrow> set names \<subseteq> H \<Longrightarrow> names_in H (dict_set mh m names)"
  by (auto simp add: names_in_def dict_set_def dest!: set_update_cases)

lemma names_in_lookup:
  "names_in H mh \<Longrightarrow> dict_get mh m = Some names \<Longrightarrow> set names \<subseteq> H"
  by (fastforce simp add: names_in_def dict_get_def dest!: map_of_SomeD)

lemma names_in_mh_add:
  assumes "names_in H mh" and "sn \<in> H"
  shows "names_in H (mh_add mh m sn)"
proof -
  define mh1 where "mh1 = (if \<not> dict_contains mh m then dict_set mh m [] else mh)"
  have a: "names_in H mh1"
    using assms(1) by (simp add: mh1_def names_in_dict_set)
  show ?thesis
  proof (cases "dict_get mh1 m")
    case None
    with a show ?thesis by (simp add: mh_add_def mh1_def [symmetric])
  next
    case (Some names)
    with a have "set names \<subseteq> H" by (rule names_in_lookup)
    with assms(2) have "set (set_add names sn) \<subseteq> H"
      by (simp add: set_add_def)
    with a Some show ?thesis
      by (simp add: mh_add_def mh1_def [symmetric] names_in_dict_set)
  qed
qed

lemma names_in_mh_add_all:
  "names_in H mh \<Longrightarrow> sn \<in> H \<Longrightarrow> names_in H (mh_add_all mh ms sn)"
  by (induction ms arbitrary: mh) (simp_all add: names_in_mh_add)

lemma mh_inv_add_service_peer:
  assumes "mh_inv p"
  shows "mh_inv (add_service_peer p srv)"
proof -
  let ?H = "set (map fst (handlers p))"
  let ?H' = "set (map fst (dict_set (handlers p) (serv_name srv) srv))"
  have sub: "?H \<subseteq> ?H'" and mem: "serv_name srv \<in> ?H'"
    by (auto simp add: dict_set_def dom_update)
  have "names_in ?H' (mh_map p)"
    using assms sub by (simp only: mh_inv_names_in names_in_mono)
  then have "names_in ?H' (mh_add_all (mh_map p) (messages srv) (serv_name srv))"
    using mem by (rule names_in_mh_add_all)
  with assms show ?thesis
    by (simp add: add_service_peer_def Let_def mh_inv_names_in)
qed

lemma mh_inv_cong:
  "handlers p' = handlers p \<Longrightarrow> mh_map p' = mh_map p \<Longrightarrow> mh_inv p' = mh_inv p"
  by (simp add: mh_inv_def)

lemma heap_dispatch: "heap (snd (dispatch w p names m)) = heap w"
  by (induction names arbitrary: w) (simp_all add: emit_def split: option.splits)

lemma heap_receive: "heap (snd (receive w p m)) = heap w"
  by (simp add: receive_def heap_dispatch split: option.splits)

lemma heap_send: "heap (snd (send w p r m)) = heap w"
  by (simp add: send_def cnx_send_def emit_def split: option.splits)

lemma heap_send_each: "heap (snd (send_each w p rs m)) = heap w"
proof (induction rs arbitrary: w)
  case Nil
  then show ?case by simp
next
  case (Cons r rs)
  obtain e w1 where s: "send w p r m = (e, w1)" by (cases "send w p r m")
  then have "heap w1 = heap w" using heap_send [of w p r m] by simp
  with s Cons show ?case by (cases e) simp_all
qed

lemma heap_draw: "heap (snd (draw w)) = heap w"
  by (simp add: draw_def)

lemma heap_sample_from: "heap (snd (sample_from w xs k)) = heap w"
proof (induction k arbitrary: w xs)
  case 0
  then show ?case by simp
next
  case (Suc k)
  show ?case
  proof (cases "xs = []")
    case True
    then show ?thesis by simp
  next
    case False
    obtain r w1 where d: "draw w = (r, w1)" by (cases "draw w")
    then have h1: "heap w1 = heap w" using heap_draw [of w] by simp
    let ?rest = "take (r mod length xs) xs @ drop (Suc (r mod length xs)) xs"
    obtain ys w2 where s: "sample_from w1 ?rest k = (ys, w2)"
      by (cases "sample_from w1 ?rest k")
    then have "heap w2 = heap w1" using Suc.IH [of w1 ?rest] by simp
    with False d s h1 show ?thesis by (simp add: Let_def)
  qed
qed

lemma heap_random_sample: "heap (snd (random_sample w xs k)) = heap w"
proof -
  obtain ys w1 where s: "sample_from w xs (nat k) = (ys, w1)"
    by (cases "sample_from w xs (nat k)")
  then have "heap w1 = heap w" using heap_sample_from [of w xs "nat k"] by simp
  with s show ?thesis by (simp add: random_sample_def Let_def)
qed

lemma heap_gossip: "heap (snd (gossip w p m f E)) = heap w"
proof -
  define cand where "cand = filter (\<lambda>k. k \<notin> (case E of None \<Rightarrow> {} | Some X \<Rightarrow> X))
      (remdups (dict_keys (connections (heap w p))))"
  obtain res w1 where s: "random_sample w cand (min f (int (length cand))) = (res, w1)"
    by (cases "random_sample w cand (min f (int (length cand)))")
  then have "heap w1 = heap w"
    using heap_random_sample [of w cand "min f (int (length cand))"] by simp
  with s show ?thesis
    by (cases res) (simp_all add: gossip_def Let_def cand_def [symmetric] heap_send_each)
qed

lemma heap_broadcast: "heap (snd (broadcast w p m)) = heap w"
  by (simp add: broadcast_def heap_send_each)

lemma heap_store: "heap (snd (store w p nm i v)) = heap w"
  by (simp add: store_def emit_def split: option.splits)

lemma services_set_connection:
  "handlers (heap (set_connection w a b c) x) = handlers (heap w x) \<and>
   mh_map (heap (set_connection w a b c) x) = mh_map (heap w x)"
  by (simp add: set_connection_def upd_peer_def)

lemma services_del_connection:
  "handlers (heap (del_connection w a b) x) = handlers (heap w x) \<and>
   mh_map (heap (del_connection w a b) x) = mh_map (heap w x)"
  by (simp add: del_connection_def upd_peer_def)

lemma services_connect:
  "handlers (heap (connect w a b) x) = handlers (heap w x) \<and>
   mh_map (heap (connect w a b) x) = mh_map (heap w x)"
  by (simp add: connect_closed [of w a b] Let_def services_set_connection)

lemma services_disconnect:
  "handlers (heap (disconnect w a b) x) = handlers (heap w x) \<and>
   mh_map (heap (disconnect w a b) x) = mh_map (heap w x)"
  by (simp add: disconnect_closed [of w a b] Let_def services_del_connection
      heap_run_callbacks)

lemma mh_inv_add_service:
  "mh_inv (heap w x) \<Longrightarrow> mh_inv (heap (add_service w p srv) x)"
  by (cases "x = p") (simp_all add: add_service_def upd_peer_def mh_inv_add_service_peer)

lemma mh_inv_add_storage:
  "mh_inv (heap (add_storage w p nm st) x) = mh_inv (heap w x)"
  by (simp add: add_storage_def upd_peer_def mh_inv_def)

text \<open>
  Claim C7. If every service name in the values of a peer's \<open>mh_map\<close> is a key of
  its \<open>handlers\<close>, then this still holds for that peer after any of add_service,
  connect, disconnect, receive, send, gossip, broadcast, store and add_storage, called
  on any peer with any arguments.
\<close>

theorem mh_map_names_registered:
  assumes "mh_inv (heap w x)"
  shows "mh_inv (heap (add_service w p srv) x) \<and>
         mh_inv (heap (connect w a b) x) \<and>
         mh_inv (heap (disconnect w a b) x) \<and>
         mh_inv (heap (snd (receive w p m)) x) \<and>
         mh_inv (heap (snd (send w p r m)) x) \<and>
         mh_inv (heap (snd (gossip w p m f E)) x) \<and>
         mh_inv (heap (snd (broadcast w p m)) x) \<and>
         mh_inv (heap (snd (store w p nm i m)) x) \<and>
         mh_inv (heap (add_storage w p nm st) x)"
  using assms
  by (simp add: mh_inv_add_service mh_inv_add_storage heap_receive heap_send heap_gossip
      heap_broadcast heap_store
      mh_inv_cong [of "heap (connect w a b) x" "heap w x"]
      mh_inv_cong [of "heap (disconnect w a b) x" "heap w x"]
      services_connect services_disconnect)

lemma dict_get_dict_set: "dict_get (dict_set d k v) k' = (if k' = k then Some v else dict_get d k')"
  by (simp add: dict_get_def dict_set_def update_conv')

lemma dict_contains_get: "dict_contains d k = (dict_get d k \<noteq> None)"
  by (simp add: dict_contains_def dict_get_def map_of_eq_None_iff)

lemma dict_get_mh_add:
  "dict_get (mh_add mh m sn) m' =
     (if m' = m then Some (set_add (case dict_get mh m of None \<Rightarrow> [] | Some ns \<Rightarrow> ns) sn)
      else dict_get mh m')"
  by (auto simp add: mh_add_def Let_def dict_get_dict_set dict_contains_get
      split: option.splits)

lemma routes_mh_add_mono: "routes mh m n \<Longrightarrow> routes (mh_add mh m' sn) m n"
  by (auto simp add: routes_def dict_get_mh_add set_add_def)

lemma routes_mh_add_new: "routes (mh_add mh m sn) m sn"
  by (simp add: routes_def dict_get_mh_add set_add_def)

lemma routes_mh_add_all_mono: "routes mh m n \<Longrightarrow> routes (mh_add_all mh ms sn) m n"
  by (induction ms arbitrary: mh) (simp_all add: routes_mh_add_mono)

lemma routes_mh_add_all_new: "m \<in> set ms \<Longrightarrow> routes (mh_add_all mh ms sn) m sn"
  by (induction ms arbitrary: mh) (auto simp add: routes_mh_add_new routes_mh_add_all_mono)

lemma sets_ok_dict_set: "sets_ok mh \<Longrightarrow> distinct names \<Longrightarrow> sets_ok (dict_set mh m names)"
  by (auto simp add: sets_ok_def dict_set_def dest!: set_update_cases)

lemma sets_ok_lookup: "sets_ok mh \<Longrightarrow> dict_get mh m = Some names \<Longrightarrow> distinct names"
  by (fastforce simp add: sets_ok_def dict_get_def dest!: map_of_SomeD)

lemma sets_ok_mh_add:
  assumes "sets_ok mh"
  shows "sets_ok (mh_add mh m sn)"
proof -
  define mh1 where "mh1 = (if \<not> dict_contains mh m then dict_set mh m [] else mh)"
  have a: "sets_ok mh1"
    using assms by (simp add: mh1_def sets_ok_dict_set)
  show ?thesis
  proof (cases "dict_get mh1 m")
    case None
    with a show ?thesis by (simp add: mh_add_def mh1_def [symmetric])
  next
    case (Some names)
    with a have "distinct names" by (rule sets_ok_lookup)
    then have "distinct (set_add names sn)"
      by (simp add: set_add_def)
    with a Some show ?thesis
      by (simp add: mh_add_def mh1_def [symmetric] sets_ok_dict_set)
  qed
qed

lemma sets_ok_mh_add_all: "sets_ok mh \<Longrightarrow> sets_ok (mh_add_all mh ms sn)"
  by (induction ms arbitrary: mh) (simp_all add: sets_ok_mh_add)

lemma reg_inv_add_service_peer:
  assumes "reg_inv p"
  shows "reg_inv (add_service_peer p srv)"
proof (cases "is_handler srv")
  case False
  with assms show ?thesis
    by (simp add: add_service_peer_def Let_def reg_inv_def mh_inv_def)
next
  case True
  define q where "q = p\<lparr>handlers := dict_set (handlers p) (serv_name srv) srv,
      mh_map := mh_add_all (mh_map p) (messages srv) (serv_name srv)\<rparr>"
  have q: "add_service_peer p srv =
      (if is_runner srv then q\<lparr>runners := dict_set (runners q) (serv_name srv) srv\<rparr> else q)"
    using True by (simp add: add_service_peer_def Let_def q_def)
  have a: "serv_name s = n \<and> (\<forall>m \<in> set (messages s). routes (mh_map q) m n)"
    if "dict_get (handlers q) n = Some s" for n s
  proof (cases "n = serv_name srv")
    case True
    with that have "s = srv" by (simp add: q_def dict_get_dict_set)
    with True show ?thesis by (simp add: q_def routes_mh_add_all_new)
  next
    case False
    with that have "dict_get (handlers p) n = Some s" by (simp add: q_def dict_get_dict_set)
    with assms have "serv_name s = n \<and> (\<forall>m \<in> set (messages s). routes (mh_map p) m n)"
      by (simp add: reg_inv_def)
    then show ?thesis by (simp add: q_def routes_mh_add_all_mono)
  qed
  have b: "sets_ok (mh_map q)"
    using assms by (simp add: q_def reg_inv_def sets_ok_def [symmetric] sets_ok_mh_add_all)
  have "mh_inv (add_service_peer p srv)"
    using assms by (simp add: reg_inv_def mh_inv_add_service_peer)
  then have c: "mh_inv q"
    by (simp add: q mh_inv_def split: if_splits)
  have "reg_inv q"
    using a b c by (simp add: reg_inv_def sets_ok_def)
  then show ?thesis
    by (simp add: q reg_inv_def mh_inv_def)
qed

lemma reg_inv_foldl:
  "reg_inv p \<Longrightarrow> reg_inv (foldl add_service_peer p svcs)"
  by (induction svcs arbitrary: p) (simp_all add: reg_inv_add_service_peer)

lemma reg_inv_empty: "handlers p = [] \<Longrightarrow> mh_map p = [] \<Longrightarrow> reg_inv p"
  by (simp add: reg_inv_def mh_inv_def dict_get_def)

lemma dispatch_all:
  assumes "\<forall>n \<in> set names. dict_contains (handlers (heap w p)) n"
  shows "dispatch w p names m =
     (None, w\<lparr>trace := trace w @
        map (\<lambda>n. HandleMessage p (the (dict_get (handlers (heap w p)) n)) m) names\<rparr>)"
  using assms
proof (induction names arbitrary: w)
  case Nil
  then show ?case by simp
next
  case (Cons n names)
  from Cons.prems obtain h where h: "dict_get (handlers (heap w p)) n = Some h"
    by (auto simp add: dict_contains_get)
  let ?w1 = "emit w (HandleMessage p h m)"
  have hp: "heap ?w1 = heap w" by (simp add: emit_def)
  have "\<forall>n \<in> set names. dict_contains (handlers (heap ?w1 p)) n"
    using Cons.prems by (simp add: hp)
  then have "dispatch ?w1 p names m =
     (None, ?w1\<lparr>trace := trace ?w1 @
        map (\<lambda>n. HandleMessage p (the (dict_get (handlers (heap ?w1 p)) n)) m) names\<rparr>)"
    by (rule Cons.IH)
  with h show ?case by (simp add: emit_def)
qed

lemma count_list_distinct: "distinct xs \<Longrightarrow> x \<in> set xs \<Longrightarrow> count_list xs x = 1"
  by (induction xs) auto

lemma count_handlers:
  assumes "\<forall>n \<in> set names. \<exists>h. dict_get H n = Some h \<and> serv_name h = n"
    and "dict_get H (serv_name s) = Some s"
  shows "count_list (map (\<lambda>n. the (dict_get H n)) names) s = count_list names (serv_name s)"
  using assms(1)
proof (induction names)
  case Nil
  then show ?case by simp
next
  case (Cons n names)
  from Cons.prems obtain h where h: "dict_get H n = Some h" "serv_name h = n"
    by auto
  have eq: "(h = s) = (n = serv_name s)"
    using h assms(2) by (metis option.inject)
  have "count_list (map (\<lambda>n. the (dict_get H n)) names) s = count_list names (serv_name s)"
    using Cons by simp
  with h(1) eq show ?case by simp
qed

text \<open>
  Claim C5. On a peer whose services were registered by \<open>add_service\<close>, for a
  handler service currently registered and declaring the type of the message m,
  \<open>receive(m)\<close> returns normally, every handler invocation it makes has the
  argument m, and that service's \<open>handle_message\<close> is invoked exactly once. In
  particular this holds when it is the only registered handler declaring the type.
\<close>

theorem receive_routes_to_handler:
  assumes "handlers p0 = []" and "mh_map p0 = []"
    and "heap w p = foldl add_service_peer p0 svcs"
    and "dict_get (handlers (heap w p)) n = Some srv"
    and "msg_type m \<in> set (messages srv)" and "is_base_message m"
  shows "\<exists>hs. receive w p m =
            (None, w\<lparr>trace := trace w @ map (\<lambda>h. HandleMessage p h m) hs\<rparr>) \<and>
          count_list hs srv = 1"
proof -
  let ?H = "handlers (heap w p)"
  have inv: "reg_inv (heap w p)"
    using assms(1-3) by (simp add: reg_inv_empty reg_inv_foldl)
  then have nm: "serv_name srv = n" and "routes (mh_map (heap w p)) (msg_type m) n"
    using assms(4,5) by (auto simp add: reg_inv_def)
  then obtain names where names: "dict_get (mh_map (heap w p)) (msg_type m) = Some names"
    and mem: "n \<in> set names"
    by (auto simp add: routes_def)
  have dist: "distinct names"
    using inv names by (auto simp add: reg_inv_def sets_ok_def [symmetric] dest: sets_ok_lookup)
  have "mh_inv (heap w p)"
    using inv by (simp add: reg_inv_def)
  then have sub: "set names \<subseteq> set (map fst ?H)"
    using names by (simp only: mh_inv_names_in) (rule names_in_lookup)
  then have present: "\<forall>k \<in> set names. dict_contains ?H k"
    by (auto simp add: dict_contains_def)
  have named: "\<forall>k \<in> set names. \<exists>h. dict_get ?H k = Some h \<and> serv_name h = k"
  proof
    fix k
    assume "k \<in> set names"
    with present obtain h where h: "dict_get ?H k = Some h"
      by (auto simp add: dict_contains_get)
    with inv have "serv_name h = k" by (simp add: reg_inv_def)
    with h show "\<exists>h. dict_get ?H k = Some h \<and> serv_name h = k" by simp
  qed
  define hs where "hs = map (\<lambda>k. the (dict_get ?H k)) names"
  have "dict_contains (mh_map (heap w p)) (msg_type m)"
    using names by (simp add: dict_contains_get)
  then have "receive w p m = dispatch w p names m"
    using assms(6) names by (simp add: receive_def)
  also have "\<dots> = (None, w\<lparr>trace := trace w @ map (\<lambda>h. HandleMessage p h m) hs\<rparr>)"
    using present by (simp add: dispatch_all hs_def comp_def)
  finally have r: "receive w p m =
      (None, w\<lparr>trace := trace w @ map (\<lambda>h. HandleMessage p h m) hs\<rparr>)" .
  have "dict_get ?H (serv_name srv) = Some srv"
    using assms(4) nm by simp
  with named have "count_list hs srv = count_list names (serv_name srv)"
    unfolding hs_def by (rule count_handlers)
  also have "\<dots> = 1"
    using dist mem nm by (simp add: count_list_distinct)
  finally show ?thesis using r by blast
qed

text \<open>The example state, evaluated, and the theorems above at that state.\<close>

lemma heap_served_2:
  "heap served_world 2 =
     \<lparr>name = ''peer'', location = ''Ohio'', bandwidth_ul = 10, bandwidth_dl = 10,
      online = True, connections = [(3, Connection 2 3)], disconnect_callbacks = [7, 8],
      handlers = [(''BlockHandler'', block_handler)],
      mh_map = [(''Block'', [''BlockHandler'']), (''Tx'', [''BlockHandler''])],
      runners = [], storage = [(''blocks'', 5)]\<rparr>"
  by (simp add: served_world_def stored_world_def linked_world_def example_world_def
      add_service_def add_storage_def upd_peer_def add_service_peer_def block_handler_def
      Peer_init_def connect_closed Let_def is_connected_def dict_contains_def
      set_connection_def dict_set_def mh_add_def dict_get_def set_add_def)

theorem fatal_conditions_raise_witness:
  "receive served_world 2 (block_msg\<lparr>is_base_message := False\<rparr>)
     = (Some AssertionError, served_world) \<and>
   receive served_world 2 (block_msg\<lparr>msg_type := ''Ping''\<rparr>)
     = (Some (NoHandler ''Ping''), served_world) \<and>
   send served_world 2 3 (block_msg\<lparr>sender := 3\<rparr>) = (Some AssertionError, served_world) \<and>
   send served_world 2 9 block_msg = (Some NotConnected, served_world) \<and>
   store served_world 2 ''txs'' 1 block_msg = (Some (NoStorage ''txs''), served_world) \<and>
   store served_world 2 ''blocks'' 1 block_msg
     = (None, emit served_world (StorageAdd 5 1 block_msg))"
  using fatal_conditions_raise [of "block_msg\<lparr>is_base_message := False\<rparr>" served_world 2
      "block_msg\<lparr>msg_type := ''Ping''\<rparr>" "block_msg\<lparr>sender := 3\<rparr>" 3 9 block_msg
      "''txs''" 1 block_msg "''blocks''" 5 1 block_msg]
  by (simp add: heap_served_2 dict_contains_def dict_get_def block_msg_def)

theorem mh_map_names_registered_witness:
  "mh_inv (heap served_world 2) \<and>
   mh_inv (heap (add_service served_world 2 block_handler) 2) \<and>
   mh_inv (heap (connect served_world 2 3) 2) \<and>
   mh_inv (heap (disconnect served_world 2 3) 2) \<and>
   mh_inv (heap (snd (receive served_world 2 block_msg)) 2) \<and>
   mh_inv (heap (snd (send served_world 2 3 block_msg)) 2) \<and>
   mh_inv (heap (snd (gossip served_world 2 block_msg 1 None)) 2) \<and>
   mh_inv (heap (snd (broadcast served_world 2 block_msg)) 2) \<and>
   mh_inv (heap (snd (store served_world 2 ''blocks'' 1 block_msg)) 2) \<and>
   mh_inv (heap (add_storage served_world 2 ''blocks'' 6) 2)"
proof -
  have h: "mh_inv (heap served_world 2)"
    by (simp add: heap_served_2 mh_inv_def dict_contains_def)
  show ?thesis
    using h mh_map_names_registered [where w = served_world and x = 2 and p = 2
        and srv = block_handler and a = 2 and b = 3 and m = block_msg and r = 3
        and f = 1 and E = None and nm = "''blocks''" and i = 1 and st = 6]
    by simp
qed

theorem receive_routes_to_handler_witness:
  "handlers (heap stored_world 2) = [] \<and> mh_map (heap stored_world 2) = [] \<and>
   heap served_world 2 = foldl add_service_peer (heap stored_world 2) [block_handler] \<and>
   dict_get (handlers (heap served_world 2)) ''BlockHandler'' = Some block_handler \<and>
   msg_type block_msg \<in> set (messages block_handler) \<and> is_base_message block_msg \<and>
   (\<exists>hs. receive served_world 2 block_msg =
            (None, served_world\<lparr>trace := trace served_world @
               map (\<lambda>h. HandleMessage 2 h block_msg) hs\<rparr>) \<and>
          count_list hs block_handler = 1)"
proof -
  have a: "handlers (heap stored_world 2) = []" and b: "mh_map (heap stored_world 2) = []"
    by (simp_all add: stored_world_def linked_world_def example_world_def
      add_storage_def upd_peer_def Peer_init_def connect_closed Let_def is_connected_def
      dict_contains_def set_connection_def)
  have c: "heap served_world 2 = foldl add_service_peer (heap stored_world 2) [block_handler]"
    by (simp add: served_world_def add_service_def upd_peer_def)
  have d: "dict_get (handlers (heap served_world 2)) ''BlockHandler'' = Some block_handler"
    by (simp add: heap_served_2 dict_get_def)
  have e: "msg_type block_msg \<in> set (messages block_handler)"
    and f: "is_base_message block_msg"
    by (simp_all add: block_msg_def block_handler_def)
  show ?thesis
    using a b c d e f receive_routes_to_handler [OF a b c d e f] by simp
qed

section \<open>The fanout of gossip\<close>

lemma trace_draw: "trace (snd (draw w)) = trace w"
  by (simp add: draw_def)

lemma sample_from_props:
  "distinct xs \<Longrightarrow>
     length (fst (sample_from w xs k)) = min k (length xs) \<and>
     set (fst (sample_from w xs k)) \<subseteq> set xs \<and>
     distinct (fst (sample_from w xs k)) \<and>
     trace (snd (sample_from w xs k)) = trace w"
proof (induction k arbitrary: w xs)
  case 0
  then show ?case by simp
next
  case (Suc k)
  show ?case
  proof (cases "xs = []")
    case True
    then show ?thesis by simp
  next
    case False
    obtain r w1 where d: "draw w = (r, w1)" by (cases "draw w")
    then have t1: "trace w1 = trace w" using trace_draw [of w] by simp
    define i where "i = r mod length xs"
    have i: "i < length xs" using False by (simp add: i_def)
    define rest where "rest = take i xs @ drop (Suc i) xs"
    have xs: "xs = take i xs @ xs ! i # drop (Suc i) xs"
      using i by (rule id_take_nth_drop)
    have dr: "distinct rest" and ni: "xs ! i \<notin> set rest"
      using Suc.prems xs unfolding rest_def
      by (metis distinct_append distinct.simps(2) disjoint_insert(1) list.simps(15)
          Un_iff set_append Int_iff empty_iff)+
    have sr: "set rest \<subseteq> set xs"
      unfolding rest_def by (auto dest: in_set_takeD in_set_dropD)
    have lr: "length rest = length xs - 1"
      using i unfolding rest_def by simp
    obtain ys w2 where s: "sample_from w1 rest k = (ys, w2)"
      by (cases "sample_from w1 rest k")
    have ih: "length ys = min k (length rest) \<and> set ys \<subseteq> set rest \<and> distinct ys \<and>
        trace w2 = trace w1"
      using Suc.IH [OF dr, of w1] s by simp
    have res: "sample_from w xs (Suc k) = (xs ! i # ys, w2)"
      using False d s by (simp add: Let_def i_def [symmetric] rest_def [symmetric])
    have "xs ! i \<in> set xs" using i by simp
    with ih sr ni lr i t1 show ?thesis
      unfolding res by auto
  qed
qed

lemma send_each_connected:
  assumes "sender m = p"
    and "\<forall>r \<in> set rs. dict_contains (connections (heap w p)) r"
  shows "send_each w p rs m =
     (None, w\<lparr>trace := trace w @
        map (\<lambda>r. CnxSend (the (dict_get (connections (heap w p)) r)) m False) rs\<rparr>)"
  using assms(2)
proof (induction rs arbitrary: w)
  case Nil
  then show ?case by simp
next
  case (Cons r rs)
  from Cons.prems obtain c where c: "dict_get (connections (heap w p)) r = Some c"
    and rc: "dict_contains (connections (heap w p)) r"
    by (auto simp add: dict_contains_get)
  let ?w1 = "cnx_send w c m False"
  have s: "send w p r m = (None, ?w1)"
    using assms(1) c rc by (simp add: send_def)
  have hp: "heap ?w1 = heap w" by (simp add: cnx_send_def emit_def)
  have "\<forall>r \<in> set rs. dict_contains (connections (heap ?w1 p)) r"
    using Cons.prems by (simp add: hp)
  then have "send_each ?w1 p rs m =
     (None, ?w1\<lparr>trace := trace ?w1 @
        map (\<lambda>r. CnxSend (the (dict_get (connections (heap ?w1 p)) r)) m False) rs\<rparr>)"
    by (rule Cons.IH)
  with s c show ?case by (simp add: cnx_send_def emit_def)
qed

text \<open>
  Claim C4. For a message authored by p and a fanout \<open>f \<ge> 0\<close>, \<open>p.gossip(msg, f, E)\<close>
  returns normally and its sends are those of \<open>msg\<close> over the connections of a list
  of peers that are pairwise distinct, are keys of p's connections outside E, and number
  \<open>min(f, |keys(p.connections) \ E|)\<close>; whatever the random source draws. An
  omitted E behaves as the empty set.
\<close>

theorem gossip_fanout:
  assumes "sender msg = p" and "0 \<le> f"
  shows "\<exists>chosen.
     fst (gossip w p msg f E) = None \<and>
     trace (snd (gossip w p msg f E)) = trace w @
       map (\<lambda>other. CnxSend (the (dict_get (connections (heap w p)) other)) msg False) chosen \<and>
     distinct chosen \<and>
     set chosen \<subseteq> set (dict_keys (connections (heap w p))) -
       (case E of None \<Rightarrow> {} | Some X \<Rightarrow> X) \<and>
     int (length chosen) = min f (int (card (set (dict_keys (connections (heap w p))) -
       (case E of None \<Rightarrow> {} | Some X \<Rightarrow> X)))) \<and>
     gossip w p msg f None = gossip w p msg f (Some {})"
proof -
  define ex where "ex = (case E of None \<Rightarrow> {} | Some X \<Rightarrow> X)"
  define keys where "keys = dict_keys (connections (heap w p))"
  define cand where "cand = filter (\<lambda>k. k \<notin> ex) (remdups keys)"
  define k where "k = min f (int (length cand))"
  have dc: "distinct cand" by (simp add: cand_def)
  have sc: "set cand = set keys - ex" by (auto simp add: cand_def)
  have lc: "length cand = card (set keys - ex)"
    using dc sc by (metis distinct_card)
  have k0: "0 \<le> k" and k1: "k \<le> int (length cand)"
    using assms(2) by (simp_all add: k_def)
  obtain chosen w1 where s: "sample_from w cand (nat k) = (chosen, w1)"
    by (cases "sample_from w cand (nat k)")
  have props: "length chosen = min (nat k) (length cand) \<and> set chosen \<subseteq> set cand \<and>
      distinct chosen \<and> trace w1 = trace w"
    using sample_from_props [OF dc, of w "nat k"] s by simp
  have hw1: "heap w1 = heap w"
    using heap_sample_from [of w cand "nat k"] s by simp
  have rs: "random_sample w cand k = (Inr chosen, w1)"
    using k0 k1 s by (simp add: random_sample_def)
  have conn: "\<forall>r \<in> set chosen. dict_contains (connections (heap w1 p)) r"
    using props sc by (auto simp add: hw1 dict_contains_def keys_def dict_keys_def)
  have g: "gossip w p msg f E = send_each w1 p chosen msg"
    using rs by (simp add: gossip_def Let_def ex_def [symmetric] keys_def [symmetric]
        cand_def [symmetric] k_def [symmetric])
  also have "\<dots> = (None, w1\<lparr>trace := trace w1 @
        map (\<lambda>r. CnxSend (the (dict_get (connections (heap w1 p)) r)) msg False) chosen\<rparr>)"
    using assms(1) conn by (rule send_each_connected)
  finally have r: "gossip w p msg f E = (None, w1\<lparr>trace := trace w @
        map (\<lambda>r. CnxSend (the (dict_get (connections (heap w p)) r)) msg False) chosen\<rparr>)"
    using props by (simp add: hw1)
  have len: "int (length chosen) = min f (int (card (set keys - ex)))"
    using props k0 k1 lc by (simp add: k_def)
  have none: "gossip w p msg f None = gossip w p msg f (Some {})"
    by (simp add: gossip_def)
  show ?thesis
    using r props sc len none
    by (intro exI [of _ chosen]) (simp add: keys_def ex_def)
qed

theorem gossip_fanout_witness:
  "sender block_msg = 2 \<and> (0::int) \<le> 1 \<and>
   (\<exists>chosen.
     fst (gossip served_world 2 block_msg 1 (Some {9})) = None \<and>
     trace (snd (gossip served_world 2 block_msg 1 (Some {9}))) = trace served_world @
       map (\<lambda>other. CnxSend (the (dict_get (connections (heap served_world 2)) other))
              block_msg False) chosen \<and>
     distinct chosen \<and>
     set chosen \<subseteq> set (dict_keys (connections (heap served_world 2))) - {9} \<and>
     int (length chosen) =
       min 1 (int (card (set (dict_keys (connections (heap served_world 2))) - {9}))))"
proof -
  have a: "sender block_msg = 2" by (simp add: block_msg_def)
  have b: "(0::int) \<le> 1" by simp
  show ?thesis
    using a gossip_fanout [OF a b, of served_world "Some {9}"] by auto
qed

section \<open>The scenario of the population layer and the bandwidth statistics\<close>

lemma add_service_peer_frame:
  "name (add_service_peer p srv) = name p \<and>
   connections (add_service_peer p srv) = connections p"
  by (simp add: add_service_peer_def Let_def)

lemma add_services_frame:
  "name (foldl add_service_peer p svcs) = name p \<and>
   connections (foldl add_service_peer p svcs) = connections p"
  by (induction svcs arbitrary: p) (simp_all add: add_service_peer_frame)

lemma start_each_frame:
  "heap (start_each w p rs) = heap w \<and> next_id (start_each w p rs) = next_id w"
  by (induction rs arbitrary: w) (simp_all add: emit_def)

lemma start_all_runners_frame:
  "heap (start_all_runners w p) = heap w \<and> next_id (start_all_runners w p) = next_id w"
  by (simp add: start_all_runners_def start_each_frame)

lemma start_peers_frame:
  "heap (foldl start_all_runners w ps) = heap w \<and>
   next_id (foldl start_all_runners w ps) = next_id w"
  by (induction ps arbitrary: w) (simp_all add: start_all_runners_frame)

lemma start_types_frame:
  "heap (foldl (\<lambda>w1 t. foldl start_all_runners w1 (snd t)) w ts) = heap w"
  by (induction ts arbitrary: w) (simp_all add: start_peers_frame)

lemma heap_start_all_peers: "heap (start_all_peers w sim) = heap w"
  by (simp add: start_all_peers_def start_types_frame)

text \<open>Creating a peer: a new object with the configured name and no connection.\<close>

lemma create_peer_result:
  "\<exists>P. name P = conf_name (fac t (next_id w)) \<and> connections P = [] \<and>
       create_peer fac w t =
         (next_id w, w\<lparr>heap := (heap w)(next_id w := P), next_id := Suc (next_id w)\<rparr>)"
proof -
  let ?c = "fac t (next_id w)"
  let ?P = "foldl add_service_peer
      (Peer_init (conf_name ?c) (conf_location ?c) (conf_ul ?c) (conf_dl ?c)) (conf_services ?c)"
  have "name ?P = conf_name ?c" and "connections ?P = []"
    by (simp_all add: add_services_frame Peer_init_def)
  moreover have "create_peer fac w t =
      (next_id w, w\<lparr>heap := (heap w)(next_id w := ?P), next_id := Suc (next_id w)\<rparr>)"
    by (simp add: create_peer_def Let_def)
  ultimately show ?thesis by blast
qed

lemma bootstrap_connect_heap:
  "heap (bootstrap_connect w p b) = heap w \<and> next_id (bootstrap_connect w p b) = next_id w"
  by (simp add: bootstrap_connect_def cnx_send_def emit_def Let_def)

lemma random_choice_single:
  "\<exists>w1. random_choice w [b] = (Inr b, w1) \<and> heap w1 = heap w \<and> next_id w1 = next_id w"
  by (simp add: random_choice_def draw_def)

lemma init_one_bootstrap:
  "\<exists>w1. init_bootstrap_servers fac w started_sim (Suc 0) =
           (None, w1, \<lparr>peers = [], bootstrap_peers = Some [next_id w]\<rparr>) \<and>
        next_id w1 = Suc (next_id w) \<and>
        isolated w1 (next_id w) (conf_name (fac ''bootstrap'' (next_id w)))"
proof -
  obtain P where P: "name P = conf_name (fac ''bootstrap'' (next_id w))" "connections P = []"
    "create_peer fac w ''bootstrap'' =
       (next_id w, w\<lparr>heap := (heap w)(next_id w := P), next_id := Suc (next_id w)\<rparr>)"
    using create_peer_result [of fac "''bootstrap''" w] by blast
  then show ?thesis
    by (simp add: started_sim_def start_all_runners_frame isolated_def)
qed

lemma add_one_peer:
  assumes "bootstrap_peers sim = Some [b]"
  shows "\<exists>w1. add_peers fac w sim (Suc k) t =
           add_peers fac w1 (record_peer sim t (next_id w)) k t \<and>
        next_id w1 = Suc (next_id w) \<and>
        isolated w1 (next_id w) (conf_name (fac t (next_id w))) \<and>
        (\<forall>q nm. q \<noteq> next_id w \<longrightarrow> isolated w q nm \<longrightarrow> isolated w1 q nm)"
proof -
  obtain P where P: "name P = conf_name (fac t (next_id w))" "connections P = []"
    "create_peer fac w t =
       (next_id w, w\<lparr>heap := (heap w)(next_id w := P), next_id := Suc (next_id w)\<rparr>)"
    using create_peer_result [of fac t w] by blast
  let ?w1 = "w\<lparr>heap := (heap w)(next_id w := P), next_id := Suc (next_id w)\<rparr>"
  obtain w2 where w2: "random_choice ?w1 [b] = (Inr b, w2)" "heap w2 = heap ?w1"
    "next_id w2 = next_id ?w1"
    using random_choice_single [of ?w1 b] by blast
  let ?w3 = "bootstrap_connect w2 (next_id w) b"
  have "add_peers fac w sim (Suc k) t = add_peers fac ?w3 (record_peer sim t (next_id w)) k t"
    using P(3) w2(1) assms by simp
  moreover have "next_id ?w3 = Suc (next_id w)"
    using w2(3) by (simp add: bootstrap_connect_heap)
  moreover have "isolated ?w3 (next_id w) (conf_name (fac t (next_id w)))"
    using P(1,2) w2(2) by (simp add: isolated_def bootstrap_connect_heap)
  moreover have "\<forall>q nm. q \<noteq> next_id w \<longrightarrow> isolated w q nm \<longrightarrow> isolated ?w3 q nm"
    using w2(2) by (simp add: isolated_def bootstrap_connect_heap)
  ultimately show ?thesis by blast
qed

lemma scenario_result:
  fixes fac :: factory and w :: world
  defines "n \<equiv> next_id w"
  shows "\<exists>w'. scenario fac w started_sim =
           (None, w', \<lparr>peers = [(''basic'', [Suc n, Suc (Suc n), Suc (Suc (Suc n))])],
                       bootstrap_peers = Some [n]\<rparr>) \<and>
         isolated w' n (conf_name (fac ''bootstrap'' n)) \<and>
         isolated w' (Suc n) (conf_name (fac ''basic'' (Suc n))) \<and>
         isolated w' (Suc (Suc n)) (conf_name (fac ''basic'' (Suc (Suc n)))) \<and>
         isolated w' (Suc (Suc (Suc n))) (conf_name (fac ''basic'' (Suc (Suc (Suc n)))))"
proof -
  let ?s0 = "\<lparr>peers = [], bootstrap_peers = Some [n]\<rparr>"
  let ?s1 = "record_peer ?s0 ''basic'' (Suc n)"
  let ?s2 = "record_peer ?s1 ''basic'' (Suc (Suc n))"
  let ?s3 = "record_peer ?s2 ''basic'' (Suc (Suc (Suc n)))"
  obtain w0 where w0: "init_bootstrap_servers fac w started_sim (Suc 0) = (None, w0, ?s0)"
    "next_id w0 = Suc n" "isolated w0 n (conf_name (fac ''bootstrap'' n))"
    using init_one_bootstrap [of fac w] unfolding n_def by blast
  have b0: "bootstrap_peers ?s0 = Some [n]" by simp
  obtain w1 where w1: "add_peers fac w0 ?s0 (Suc 2) ''basic'' = add_peers fac w1 ?s1 2 ''basic''"
    "next_id w1 = Suc (Suc n)" "isolated w1 (Suc n) (conf_name (fac ''basic'' (Suc n)))"
    "\<forall>q nm. q \<noteq> Suc n \<longrightarrow> isolated w0 q nm \<longrightarrow> isolated w1 q nm"
    using add_one_peer [OF b0, of fac w0 2 "''basic''"] w0(2) by auto
  have b1: "bootstrap_peers ?s1 = Some [n]" by (simp add: record_peer_def Let_def split: option.splits)
  obtain w2 where w2: "add_peers fac w1 ?s1 (Suc 1) ''basic'' = add_peers fac w2 ?s2 1 ''basic''"
    "next_id w2 = Suc (Suc (Suc n))"
    "isolated w2 (Suc (Suc n)) (conf_name (fac ''basic'' (Suc (Suc n))))"
    "\<forall>q nm. q \<noteq> Suc (Suc n) \<longrightarrow> isolated w1 q nm \<longrightarrow> isolated w2 q nm"
    using add_one_peer [OF b1, of fac w1 1 "''basic''"] w1(2) by auto
  have b2: "bootstrap_peers ?s2 = Some [n]" by (simp add: record_peer_def Let_def split: option.splits)
  obtain w3 where w3: "add_peers fac w2 ?s2 (Suc 0) ''basic'' = add_peers fac w3 ?s3 0 ''basic''"
    "isolated w3 (Suc (Suc (Suc n))) (conf_name (fac ''basic'' (Suc (Suc (Suc n)))))"
    "\<forall>q nm. q \<noteq> Suc (Suc (Suc n)) \<longrightarrow> isolated w2 q nm \<longrightarrow> isolated w3 q nm"
    using add_one_peer [OF b2, of fac w2 0 "''basic''"] w2(2) by auto
  have s3: "?s3 = \<lparr>peers = [(''basic'', [Suc n, Suc (Suc n), Suc (Suc (Suc n))])],
                       bootstrap_peers = Some [n]\<rparr>"
    by (simp add: record_peer_def Let_def dict_contains_def dict_set_def dict_get_def)
  have "add_peers fac w0 ?s0 3 ''basic'' = (None, w3, ?s3)"
    using w1(1) w2(1) w3(1) by (simp add: numeral_3_eq_3 numeral_2_eq_2)
  then have sc: "scenario fac w started_sim = (None, start_all_peers w3 ?s3, ?s3)"
    using w0(1) by (simp add: scenario_def)
  have iso: "isolated (start_all_peers w3 s) q nm = isolated w3 q nm" for q nm s
    by (simp add: isolated_def heap_start_all_peers)
  have "isolated w3 n (conf_name (fac ''bootstrap'' n))"
    using w0(3) w1(4) w2(4) w3(3) by simp
  moreover have "isolated w3 (Suc n) (conf_name (fac ''basic'' (Suc n)))"
    using w1(3) w2(4) w3(3) by simp
  moreover have "isolated w3 (Suc (Suc n)) (conf_name (fac ''basic'' (Suc (Suc n))))"
    using w2(3) w3(3) by simp
  ultimately show ?thesis
    using sc w3(2) unfolding s3 by (intro exI [of _ "start_all_peers w3 ?s3"]) (simp add: iso s3)
qed

text \<open>
  From the state that \<open>Simulation.__init__\<close> leaves, every step that reads
  \<open>bootstrap_peers\<close> raises.
\<close>

lemma init_from_init_raises:
  "fst (init_bootstrap_servers fac w Simulation_init 1) = Some AttributeError"
  by (simp add: Simulation_init_def create_peer_def Let_def)

lemma add_peers_from_init_raises:
  "fst (add_peers fac w Simulation_init 3 ''basic'') = Some AttributeError"
  by (simp add: Simulation_init_def create_peer_def Let_def numeral_3_eq_3)

lemma scenario_from_init_raises:
  "fst (scenario fac w Simulation_init) = Some AttributeError"
  by (simp add: scenario_def Simulation_init_def create_peer_def Let_def)

lemma get_graph_from_init_raises:
  "get_graph bw w Simulation_init True = Inl AttributeError"
  by (simp add: get_graph_def Simulation_init_def)

text \<open>
  Claim C8 against the code. The scenario begins with \<open>init_bootstrap_servers(1)\<close>
  on a new simulation. \<open>Simulation.__init__\<close> never assigns \<open>bootstrap_peers\<close>,
  which \<open>init_bootstrap_servers\<close>, \<open>add_peers\<close> and \<open>get_graph\<close> with the
  bootstrap peers included all read. So for every factory and every state the first
  step of the scenario raises \<open>AttributeError\<close>, as do the later ones: no bootstrap
  peer is recorded, and no graph with the nodes and edges of the claim is derived.
\<close>

theorem scenario_stops_at_bootstrap_peers:
  "bootstrap_peers Simulation_init = None \<and>
   fst (init_bootstrap_servers fac w Simulation_init 1) = Some AttributeError \<and>
   fst (scenario fac w Simulation_init) = Some AttributeError \<and>
   fst (add_peers fac w Simulation_init 3 ''basic'') = Some AttributeError \<and>
   get_graph bw w Simulation_init True = Inl AttributeError"
proof (intro conjI)
  show "bootstrap_peers Simulation_init = None"
    by (simp add: Simulation_init_def)
  show "fst (init_bootstrap_servers fac w Simulation_init 1) = Some AttributeError"
    by (rule init_from_init_raises)
  show "fst (scenario fac w Simulation_init) = Some AttributeError"
    by (rule scenario_from_init_raises)
  show "fst (add_peers fac w Simulation_init 3 ''basic'') = Some AttributeError"
    by (rule add_peers_from_init_raises)
  show "get_graph bw w Simulation_init True = Inl AttributeError"
    by (rule get_graph_from_init_raises)
qed

text \<open>
  What the claim describes is what the rest of the code computes once that list
  exists. From a simulation whose \<open>bootstrap_peers\<close> is the empty list the scenario
  ends normally; and when the bootstrap peer has connected to the sender of each
  \<open>Hello\<close> (the second leg of \<open>bootstrap_connect\<close>, which the spec leaves to a
  service outside the core), the graph without the bootstrap peers has the three
  ordinary peers as isolated nodes, and the graph with them has four nodes and three
  edges, each at the bootstrap node.
\<close>

lemma example_names:
  "conf_name (example_factory ''bootstrap'' (next_id example_world)) = ''bootstrap_4''"
  "conf_name (example_factory ''basic'' (Suc (next_id example_world))) = ''basic_5''"
  "conf_name (example_factory ''basic'' (Suc (Suc (next_id example_world)))) = ''basic_6''"
  "conf_name (example_factory ''basic'' (Suc (Suc (Suc (next_id example_world))))) = ''basic_7''"
  by (simp_all add: example_factory_def example_world_def)

lemma scenario_completed_graphs:
  "snd (snd (scenario example_factory example_world started_sim)) =
       \<lparr>peers = [(''basic'', [5, 6, 7])], bootstrap_peers = Some [4]\<rparr> \<and>
     get_graph (\<lambda>c. 10)
         (connect (connect (connect
            (fst (snd (scenario example_factory example_world started_sim))) 4 5) 4 6) 4 7)
         (snd (snd (scenario example_factory example_world started_sim))) False =
       Inr \<lparr>g_nodes = [''basic_5'', ''basic_6'', ''basic_7''], g_edges = []\<rparr> \<and>
     get_graph (\<lambda>c. 10)
         (connect (connect (connect
            (fst (snd (scenario example_factory example_world started_sim))) 4 5) 4 6) 4 7)
         (snd (snd (scenario example_factory example_world started_sim))) True =
       Inr \<lparr>g_nodes = [''basic_5'', ''bootstrap_4'', ''basic_6'', ''basic_7''],
            g_edges = [((''basic_5'', ''bootstrap_4''), 10),
                       ((''basic_6'', ''bootstrap_4''), 10),
                       ((''basic_7'', ''bootstrap_4''), 10)]\<rparr>"
proof -
  have n: "next_id example_world = 4" by (simp add: example_world_def)
  have e: "Suc 4 = 5" "Suc 5 = 6" "Suc 6 = 7" by simp_all
  obtain w' where sc: "scenario example_factory example_world started_sim =
        (None, w', \<lparr>peers = [(''basic'', [5, 6, 7])], bootstrap_peers = Some [4]\<rparr>)"
    and i0: "isolated w' 4 ''bootstrap_4''" and i1: "isolated w' 5 ''basic_5''"
    and i2: "isolated w' 6 ''basic_6''" and i3: "isolated w' 7 ''basic_7''"
    using scenario_result [of example_factory example_world] example_names
    unfolding n e by auto
  let ?w = "connect (connect (connect w' 4 5) 4 6) 4 7"
  have h: "heap ?w = (heap w')
      (4 := (heap w' 4)\<lparr>connections := [(5, Connection 4 5), (6, Connection 4 6), (7, Connection 4 7)]\<rparr>,
       5 := (heap w' 5)\<lparr>connections := [(4, Connection 5 4)]\<rparr>,
       6 := (heap w' 6)\<lparr>connections := [(4, Connection 6 4)]\<rparr>,
       7 := (heap w' 7)\<lparr>connections := [(4, Connection 7 4)]\<rparr>)"
    using i0 i1 i2 i3
    by (auto simp add: isolated_def connect_closed Let_def is_connected_def dict_contains_def
        set_connection_def upd_peer_def dict_set_def fun_eq_iff)
  have nm: "name (heap w' 4) = ''bootstrap_4''" "name (heap w' 5) = ''basic_5''"
    "name (heap w' 6) = ''basic_6''" "name (heap w' 7) = ''basic_7''"
    using i0 i1 i2 i3 by (simp_all add: isolated_def)
  have "get_graph (\<lambda>c. 10) ?w \<lparr>peers = [(''basic'', [5, 6, 7])], bootstrap_peers = Some [4]\<rparr> False =
       Inr \<lparr>g_nodes = [''basic_5'', ''basic_6'', ''basic_7''], g_edges = []\<rparr>"
    by (simp add: get_graph_def dict_values_def h nm add_node_def empty_graph_def
        startswith_def)
  moreover have "get_graph (\<lambda>c. 10) ?w \<lparr>peers = [(''basic'', [5, 6, 7])], bootstrap_peers = Some [4]\<rparr> True =
       Inr \<lparr>g_nodes = [''basic_5'', ''bootstrap_4'', ''basic_6'', ''basic_7''],
            g_edges = [((''basic_5'', ''bootstrap_4''), 10),
                       ((''basic_6'', ''bootstrap_4''), 10),
                       ((''basic_7'', ''bootstrap_4''), 10)]\<rparr>"
    by (simp add: get_graph_def dict_values_def h nm add_node_def add_edge_def Let_def
        empty_graph_def dict_contains_def dict_set_def)
  ultimately show ?thesis using sc by simp
qed

lemma collect_bws_strings:
  "collect_bws bw w (map PyStr ks) bws = (if ks = [] then Inr bws else Inl AttributeError)"
  by (cases ks) simp_all

lemma bandwidth_statistics_never_return:
  "avg_bandwidth bw w sim =
     Inl (if peers sim = [] then ZeroDivisionError else AttributeError) \<and>
   median_bandwidth bw w sim =
     Inl (if peers sim = [] then IndexError else AttributeError)"
proof -
  have c: "collect_bws bw w (map PyStr (dict_keys (peers sim))) [] =
      (if peers sim = [] then Inr [] else Inl AttributeError)"
    by (simp only: collect_bws_strings) (simp add: dict_keys_def)
  show ?thesis
    unfolding avg_bandwidth_def median_bandwidth_def c by simp
qed

text \<open>
  Claim C9 against the code. In a simulation that records two connected peers, the
  bandwidths of all connections of all recorded peers are 10 and 10, whose mean and
  median are 10; \<open>avg_bandwidth\<close> and \<open>median_bandwidth\<close> both raise
  \<open>AttributeError\<close>, since their loops take the keys of \<open>peers\<close>, the names of
  the peer types, where \<open>get_graph\<close> takes the peers in its values.
\<close>

theorem bandwidth_statistics_raise:
  "recorded_bandwidths (\<lambda>c. 10) linked_world linked_sim = [10, 10] \<and>
   avg_bandwidth (\<lambda>c. 10) linked_world linked_sim = Inl AttributeError \<and>
   median_bandwidth (\<lambda>c. 10) linked_world linked_sim = Inl AttributeError"
proof -
  have "connections (heap linked_world 2) = [(3, Connection 2 3)]"
    and "connections (heap linked_world 3) = [(2, Connection 3 2)]"
    by (simp_all add: linked_world_def example_world_def upd_peer_def Peer_init_def
        connect_closed Let_def is_connected_def dict_contains_def set_connection_def
        dict_set_def)
  then have "recorded_bandwidths (\<lambda>c. 10) linked_world linked_sim = [10, 10]"
    by (simp add: recorded_bandwidths_def linked_sim_def dict_values_def)
  then show ?thesis
    using bandwidth_statistics_never_return [of "\<lambda>c. 10" linked_world linked_sim]
    by (simp add: linked_sim_def)
qed

end
